theory Spec2Isabelle
  imports Complex_Main
begin

section \<open>The datastore (supabase/migrations/20251202040720\_create\_bpl\_system\_tables.sql)\<close>

text \<open>
  The tables of the migration as lists of rows, in insertion order. A column declared
  \<^verbatim>\<open>NOT NULL\<close> (or \<^verbatim>\<open>PRIMARY KEY\<close>) has its value type, every other column is an
  \<open>option\<close> with \<open>None\<close> for SQL \<^verbatim>\<open>NULL\<close>. Identifiers are the text of the uuid;
  a \<^verbatim>\<open>timestamptz\<close> is a number of seconds.
\<close>

type_synonym uuid = string
type_synonym timestamptz = int

text \<open>
  Row level security is enabled on every table and every policy of the migration is
  granted \<^verbatim>\<open>TO authenticated\<close> with \<^verbatim>\<open>USING (true)\<close> and \<^verbatim>\<open>WITH CHECK (true)\<close>:
  an authenticated session sees and writes every row, any other session sees no row and
  may insert none. The role of the session is set up in \<^verbatim>\<open>src/lib/supabase.ts\<close> and
  is a parameter here.
\<close>

datatype role = anon | authenticated

text \<open>What a query hands back in its \<^verbatim>\<open>error\<close> field: SQLSTATE code and message.\<close>

datatype PostgrestError = PostgrestError (err_code: string) (err_message: string)

record beneficiaries_row =
  b_id :: uuid
  b_card_number :: string
  b_name :: string
  b_phone :: "string option"
  b_address :: "string option"
  b_face_image_url :: "string option"
  b_face_embedding :: "string option"
  b_status :: "string option"
  b_created_at :: "timestamptz option"
  b_updated_at :: "timestamptz option"

record ration_shops_row =
  s_id :: uuid
  s_shop_code :: string
  s_name :: string
  s_location :: string
  s_district :: string
  s_state :: "string option"
  s_operator_name :: "string option"
  s_created_at :: "timestamptz option"

record distribution_cycles_row =
  c_id :: uuid
  c_cycle_name :: string
  c_start_date :: int
  c_end_date :: int
  c_status :: "string option"
  c_created_at :: "timestamptz option"

record transactions_row =
  t_id :: uuid
  t_beneficiary_id :: "uuid option"
  t_card_number :: string
  t_shop_id :: uuid
  t_cycle_id :: "uuid option"
  t_verification_type :: "string option"
  t_face_match_confidence :: "rat option"
  t_captured_image_url :: "string option"
  t_status :: "string option"
  t_items_collected :: "string option"
  t_operator_id :: "string option"
  t_notes :: "string option"
  t_created_at :: "timestamptz option"

record duplicate_alerts_row =
  a_id :: uuid
  a_alert_type :: string
  a_beneficiary_id :: "uuid option"
  a_card_number :: string
  a_transaction_id :: "uuid option"
  a_previous_transaction_id :: "uuid option"
  a_shop_id :: uuid
  a_description :: string
  a_severity :: "string option"
  a_status :: "string option"
  a_reviewed_by :: "string option"
  a_reviewed_at :: "timestamptz option"
  a_created_at :: "timestamptz option"

record database =
  beneficiaries :: "beneficiaries_row list"
  ration_shops :: "ration_shops_row list"
  distribution_cycles :: "distribution_cycles_row list"
  transactions :: "transactions_row list"
  duplicate_alerts :: "duplicate_alerts_row list"

text \<open>
  A \<^verbatim>\<open>CHECK (col IN (...))\<close> constraint is satisfied by \<^verbatim>\<open>NULL\<close> (the condition is
  then unknown, not false) and by the listed values.
\<close>

definition check_in :: "string option \<Rightarrow> string list \<Rightarrow> bool" where
  "check_in v allowed = (case v of None \<Rightarrow> True | Some x \<Rightarrow> x \<in> set allowed)"

definition beneficiaries_status_check :: "string option \<Rightarrow> bool" where
  "beneficiaries_status_check v = check_in v [''active'', ''suspended'', ''blocked'']"

definition rls_violation :: "string \<Rightarrow> PostgrestError" where
  "rls_violation tbl =
     PostgrestError ''42501'' (''new row violates row-level security policy for table '' @ tbl)"

definition check_violation :: "string \<Rightarrow> PostgrestError" where
  "check_violation c =
     PostgrestError ''23514'' (''new row violates check constraint '' @ c)"

definition unique_violation :: "string \<Rightarrow> PostgrestError" where
  "unique_violation c =
     PostgrestError ''23505'' (''duplicate key value violates unique constraint '' @ c)"

definition foreign_key_violation :: "string \<Rightarrow> PostgrestError" where
  "foreign_key_violation c =
     PostgrestError ''23503'' (''insert or update violates foreign key constraint '' @ c)"

text \<open>
  \<^verbatim>\<open>INSERT INTO beneficiaries\<close>: the policy, the status check, the primary key and the
  \<^verbatim>\<open>UNIQUE\<close> constraint on \<^verbatim>\<open>card_number\<close>; a row that passes is appended.
\<close>

definition insert_beneficiaries ::
  "role \<Rightarrow> beneficiaries_row \<Rightarrow> database \<Rightarrow> PostgrestError + database" where
  "insert_beneficiaries r row db =
     (if r \<noteq> authenticated then Inl (rls_violation ''beneficiaries'')
      else if \<not> beneficiaries_status_check (b_status row)
        then Inl (check_violation ''beneficiaries_status_check'')
      else if b_id row \<in> set (map b_id (beneficiaries db))
        then Inl (unique_violation ''beneficiaries_pkey'')
      else if b_card_number row \<in> set (map b_card_number (beneficiaries db))
        then Inl (unique_violation ''beneficiaries_card_number_key'')
      else Inr (db\<lparr>beneficiaries := beneficiaries db @ [row]\<rparr>))"

text \<open>
  \<^verbatim>\<open>.from('beneficiaries').select('id').eq('card_number', c)\<close>: the rows the session may
  see with that card number; \<^verbatim>\<open>.maybeSingle()\<close> gives the row when there is exactly
  one, and \<^verbatim>\<open>data: null\<close> when there is none (or, with an error, when there are several).
\<close>

definition select_beneficiaries_by_card ::
  "role \<Rightarrow> string \<Rightarrow> database \<Rightarrow> beneficiaries_row list" where
  "select_beneficiaries_by_card r c db =
     (if r = authenticated then filter (\<lambda>b. b_card_number b = c) (beneficiaries db) else [])"

fun maybeSingle :: "'a list \<Rightarrow> 'a option" where
  "maybeSingle [x] = Some x"
| "maybeSingle _ = None"

section \<open>Registration (src/components/BeneficiaryRegistration.tsx)\<close>

record form_data =
  card_number :: string
  name :: string
  phone :: string
  address :: string

datatype message_type = success | error

text \<open>The state of the component that \<^verbatim>\<open>handleSubmit\<close> reads and sets.\<close>

record registration_state =
  formData :: form_data
  capturedImage :: "string option"
  loading :: bool
  message :: "(message_type \<times> string) option"

text \<open>
  The object handed to \<^verbatim>\<open>insert\<close> (\<^verbatim>\<open>beneficiaryData\<close>) with the column defaults of
  the table filled in: \<^verbatim>\<open>gen_random_uuid()\<close> for the id and \<^verbatim>\<open>now()\<close> for the two
  timestamps, both supplied by the datastore. \<^verbatim>\<open>substring(0, 100)\<close> is the first 100
  characters, or the whole string when it is shorter.
\<close>

definition beneficiaryData ::
  "uuid \<Rightarrow> timestamptz \<Rightarrow> form_data \<Rightarrow> string \<Rightarrow> beneficiaries_row" where
  "beneficiaryData new_id now fd img =
     \<lparr> b_id = new_id,
       b_card_number = card_number fd,
       b_name = name fd,
       b_phone = Some (phone fd),
       b_address = Some (address fd),
       b_face_image_url = Some (take 100 img @ ''...''),
       b_face_embedding = Some img,
       b_status = Some ''active'',
       b_created_at = Some now,
       b_updated_at = Some now \<rparr>"

definition empty_form :: form_data where
  "empty_form = \<lparr> card_number = [], name = [], phone = [], address = [] \<rparr>"

text \<open>
  \<^verbatim>\<open>handleSubmit\<close>. The function awaits the datastore twice, first for the
  \<^verbatim>\<open>existingCheck\<close> select and then for the insert, and other sessions may write in
  between: \<open>db_check\<close> is the datastore the select reads, \<open>db\<close> the one the insert
  meets. The result is the state of the component and the datastore afterwards.
  \<^verbatim>\<open>!capturedImage\<close> holds of null and of the empty string, \<^verbatim>\<open>!formData.name\<close>
  of the empty string; \<^verbatim>\<open>error.message || 'Registration failed'\<close> falls back when
  the message is empty.
\<close>

definition handleSubmit_steps ::
  "role \<Rightarrow> uuid \<Rightarrow> timestamptz \<Rightarrow> registration_state \<Rightarrow> database \<Rightarrow> database
     \<Rightarrow> registration_state \<times> database" where
  "handleSubmit_steps r new_id now st db_check db =
     (case capturedImage st of
        None \<Rightarrow> (st\<lparr>message := Some (error, ''Please capture or upload a face image'')\<rparr>, db)
      | Some img \<Rightarrow>
          if img = []
            then (st\<lparr>message := Some (error, ''Please capture or upload a face image'')\<rparr>, db)
          else if card_number (formData st) = [] \<or> name (formData st) = []
            then (st\<lparr>message := Some (error, ''Card number and name are required'')\<rparr>, db)
          else
            (case maybeSingle
                    (select_beneficiaries_by_card r (card_number (formData st)) db_check) of
               Some existing \<Rightarrow>
                 (st\<lparr>message := Some (error, ''Card number already registered''),
                     loading := False\<rparr>, db)
             | None \<Rightarrow>
                 (case insert_beneficiaries r (beneficiaryData new_id now (formData st) img) db of
                    Inl e \<Rightarrow>
                      (st\<lparr>message :=
                            Some (error,
                              if err_message e = [] then ''Registration failed''
                              else err_message e),
                          loading := False\<rparr>, db)
                  | Inr db' \<Rightarrow>
                      (st\<lparr>message := Some (success, ''Beneficiary registered successfully!''),
                          formData := empty_form,
                          capturedImage := None,
                          loading := False\<rparr>, db'))))"

text \<open>A submission with no other session writing between the select and the insert.\<close>

definition handleSubmit ::
  "role \<Rightarrow> uuid \<Rightarrow> timestamptz \<Rightarrow> registration_state \<Rightarrow> database
     \<Rightarrow> registration_state \<times> database" where
  "handleSubmit r new_id now st db = handleSubmit_steps r new_id now st db db"

section \<open>Reviewing alerts (src/components/MonitoringDashboard.tsx)\<close>

definition duplicate_alerts_status_check :: "string option \<Rightarrow> bool" where
  "duplicate_alerts_status_check v =
     check_in v [''pending'', ''reviewed'', ''resolved'', ''dismissed'']"

text \<open>
  \<^verbatim>\<open>.from('duplicate_alerts').update({status, reviewed_by, reviewed_at}).eq('id', alertId)\<close>.
  A session that is not authenticated sees no row to update, which is no error. The new
  status goes through the \<^verbatim>\<open>CHECK\<close> of the column when a row is updated; a rejected
  statement changes nothing. The only condition on the rows is the id.
\<close>

definition update_duplicate_alerts ::
  "role \<Rightarrow> string \<Rightarrow> string \<Rightarrow> timestamptz \<Rightarrow> uuid \<Rightarrow> database \<Rightarrow> PostgrestError + database" where
  "update_duplicate_alerts r status reviewed_by reviewed_at alertId db =
     (if r \<noteq> authenticated then Inr db
      else if alertId \<in> set (map a_id (duplicate_alerts db))
              \<and> \<not> duplicate_alerts_status_check (Some status)
        then Inl (check_violation ''duplicate_alerts_status_check'')
      else Inr (db\<lparr>duplicate_alerts :=
                  map (\<lambda>a. if a_id a = alertId
                            then a\<lparr>a_status := Some status,
                                   a_reviewed_by := Some reviewed_by,
                                   a_reviewed_at := Some reviewed_at\<rparr>
                            else a)
                      (duplicate_alerts db)\<rparr>))"

text \<open>
  \<^verbatim>\<open>handleReviewAlert(alertId, status)\<close>: the update with \<^verbatim>\<open>reviewed_by: 'Admin'\<close> and
  \<^verbatim>\<open>reviewed_at: new Date().toISOString()\<close> (the clock of the browser, \<open>now\<close>). The
  result of the query is not looked at, so an error of the datastore leaves everything as
  it was; \<^verbatim>\<open>loadData()\<close> afterwards only reads.
\<close>

definition handleReviewAlert :: "role \<Rightarrow> timestamptz \<Rightarrow> uuid \<Rightarrow> string \<Rightarrow> database \<Rightarrow> database" where
  "handleReviewAlert r now alertId status db =
     (case update_duplicate_alerts r status ''Admin'' now alertId db of
        Inl e \<Rightarrow> db
      | Inr db' \<Rightarrow> db')"

text \<open>
  The two buttons of an alert card. They are rendered under
  \<^verbatim>\<open>alert.status === 'pending'\<close>, where \<^verbatim>\<open>alert\<close> is a row of \<^verbatim>\<open>recentAlerts\<close>, the
  copy that \<^verbatim>\<open>loadData\<close> fetched last (every 10 seconds and after a review), and they
  call \<^verbatim>\<open>handleReviewAlert\<close> with the id of that row.
\<close>

datatype review_button = Resolve | Dismiss

definition review_buttons_rendered :: "duplicate_alerts_row \<Rightarrow> bool" where
  "review_buttons_rendered alert = (a_status alert = Some ''pending'')"

fun button_status :: "review_button \<Rightarrow> string" where
  "button_status Resolve = ''resolved''"
| "button_status Dismiss = ''dismissed''"

definition onClick ::
  "role \<Rightarrow> timestamptz \<Rightarrow> review_button \<Rightarrow> duplicate_alerts_row \<Rightarrow> database \<Rightarrow> database" where
  "onClick r now b alert db = handleReviewAlert r now (a_id alert) (button_status b) db"

section \<open>The transactions table\<close>

definition transactions_verification_type_check :: "string option \<Rightarrow> bool" where
  "transactions_verification_type_check v = check_in v [''face'', ''manual'', ''override'']"

definition transactions_face_match_confidence_check :: "rat option \<Rightarrow> bool" where
  "transactions_face_match_confidence_check v =
     (case v of None \<Rightarrow> True | Some c \<Rightarrow> 0 \<le> c \<and> c \<le> 100)"

definition transactions_status_check :: "string option \<Rightarrow> bool" where
  "transactions_status_check v = check_in v [''success'', ''failed'', ''flagged'', ''pending'']"

text \<open>
  The \<^verbatim>\<open>status\<close> member of the interface \<^verbatim>\<open>Transaction\<close> of the front end:
  \<^verbatim>\<open>'success' | 'failed' | 'flagged' | 'pending'\<close>.
\<close>

definition Transaction_status :: "string list" where
  "Transaction_status = [''success'', ''failed'', ''flagged'', ''pending'']"

text \<open>A nullable \<^verbatim>\<open>REFERENCES\<close> column holds \<^verbatim>\<open>NULL\<close> or a key of the other table.\<close>

definition references :: "uuid option \<Rightarrow> uuid list \<Rightarrow> bool" where
  "references v keys = (case v of None \<Rightarrow> True | Some k \<Rightarrow> k \<in> set keys)"

text \<open>
  \<^verbatim>\<open>INSERT INTO transactions\<close>: the policy, the three \<^verbatim>\<open>CHECK\<close> constraints, the primary
  key and the three foreign keys. A statement that leaves \<^verbatim>\<open>status\<close> out stores the
  default \<^verbatim>\<open>'success'\<close>; the row given here is the row after the defaults.
\<close>

definition insert_transactions ::
  "role \<Rightarrow> transactions_row \<Rightarrow> database \<Rightarrow> PostgrestError + database" where
  "insert_transactions r row db =
     (if r \<noteq> authenticated then Inl (rls_violation ''transactions'')
      else if \<not> transactions_verification_type_check (t_verification_type row)
        then Inl (check_violation ''transactions_verification_type_check'')
      else if \<not> transactions_face_match_confidence_check (t_face_match_confidence row)
        then Inl (check_violation ''transactions_face_match_confidence_check'')
      else if \<not> transactions_status_check (t_status row)
        then Inl (check_violation ''transactions_status_check'')
      else if t_id row \<in> set (map t_id (transactions db))
        then Inl (unique_violation ''transactions_pkey'')
      else if \<not> references (t_beneficiary_id row) (map b_id (beneficiaries db))
        then Inl (foreign_key_violation ''transactions_beneficiary_id_fkey'')
      else if t_shop_id row \<notin> set (map s_id (ration_shops db))
        then Inl (foreign_key_violation ''transactions_shop_id_fkey'')
      else if \<not> references (t_cycle_id row) (map c_id (distribution_cycles db))
        then Inl (foreign_key_violation ''transactions_cycle_id_fkey'')
      else Inr (db\<lparr>transactions := transactions db @ [row]\<rparr>))"

section \<open>Configuration (README.md, section Configuration)\<close>

text \<open>
  Modelled from the spec: the default of \<^verbatim>\<open>FACE_MATCH_THRESHOLD\<close> in the missing
  \<^verbatim>\<open>backend/config.py\<close>, 60.0 on the confidence scale from 0 to 100 (4.2 and 6), the
  scale of the confidences that the comparator returns and the ledger stores. The README
  quotes the option as \<^verbatim>\<open>FACE_MATCH_THRESHOLD = 0.6\<close>, the same threshold as a
  fraction of that scale.
\<close>

definition FACE_MATCH_THRESHOLD :: rat where
  "FACE_MATCH_THRESHOLD = 60"

text \<open>
  The other two options of \<^verbatim>\<open>backend/config.py\<close> as the README gives them:
  \<^verbatim>\<open>DUPLICATE_TIME_WINDOW_HOURS = 24\<close> and \<^verbatim>\<open>MAX_TRANSACTIONS_PER_CYCLE = 1\<close>.
\<close>

definition DUPLICATE_TIME_WINDOW_HOURS :: nat where
  "DUPLICATE_TIME_WINDOW_HOURS = 24"

definition MAX_TRANSACTIONS_PER_CYCLE :: nat where
  "MAX_TRANSACTIONS_PER_CYCLE = 1"

record config =
  face_match_threshold :: rat
  duplicate_time_window_hours :: nat
  max_transactions_per_cycle :: nat

definition default_config :: config where
  "default_config =
     \<lparr> face_match_threshold = FACE_MATCH_THRESHOLD,
       duplicate_time_window_hours = DUPLICATE_TIME_WINDOW_HOURS,
       max_transactions_per_cycle = MAX_TRANSACTIONS_PER_CYCLE \<rparr>"

section \<open>The verification core\<close>

text \<open>
  The back end (\<^verbatim>\<open>backend/main.py\<close>, \<^verbatim>\<open>duplicate_detection.py\<close>,
  \<^verbatim>\<open>face_recognition_service.py\<close>) is not part of the sources at hand; the front end only
  posts to \<^verbatim>\<open>/api/verify\<close>. The definitions of this section follow the specification,
  sections 3, 4.1 and 4.3 to 4.5, and each says so.
\<close>

subsection \<open>Data model\<close>

text \<open>
  Modelled from the spec: the value sets of section 3 (statuses of a beneficiary, a cycle,
  a transaction and an alert, alert types, severities), which the missing
  \<^verbatim>\<open>backend/models.py\<close> declares.
\<close>

datatype beneficiary_status = active | suspended | blocked

datatype cycle_status = cycle_active | completed | cancelled

datatype transaction_status = status_success | status_failed | status_flagged

datatype alert_type = duplicate_location | different_person | multiple_attempts | suspicious_timing

datatype severity = low | medium | high | critical

datatype alert_status = pending | reviewed | resolved | dismissed

text \<open>
  Modelled from the spec: the entities of section 3, which the missing
  \<^verbatim>\<open>backend/models.py\<close> declares. Identifiers are numbers, a timestamp is a number of
  seconds, a face representation is opaque text. The state of the core is the registry,
  the cycles, the ledger and the alerts.
\<close>

record Beneficiary =
  beneficiary_ident :: nat
  beneficiary_card_number :: string
  identity_name :: string
  reference_face_embedding :: string
  beneficiary_state :: beneficiary_status

record DistributionCycle =
  cycle_ident :: nat
  start_date :: int
  end_date :: int
  cycle_state :: cycle_status

record Transaction =
  transaction_ident :: nat
  beneficiary_id :: "nat option"
  transaction_card_number :: string
  shop_id :: string
  cycle_id :: nat
  face_match_confidence :: "rat option"
  status :: transaction_status
  created_at :: int

record DuplicateAlert =
  alert_kind :: alert_type
  transaction_id :: nat
  previous_transaction_id :: "nat option"
  alert_severity :: severity
  description :: string
  alert_state :: alert_status
  reviewed_by :: "string option"
  reviewed_at :: "int option"

record core_state =
  registry :: "Beneficiary list"
  cycles :: "DistributionCycle list"
  ledger :: "Transaction list"
  alerts :: "DuplicateAlert list"

subsection \<open>Identity registry and ledger\<close>

text \<open>
  Modelled from the spec: \<^verbatim>\<open>lookup(card_number)\<close> of the Identity Registry (4.1), an
  exact match on the key.
\<close>

definition lookup :: "string \<Rightarrow> Beneficiary list \<Rightarrow> Beneficiary option" where
  "lookup cardno reg = find (\<lambda>b. beneficiary_card_number b = cardno) reg"

text \<open>
  Modelled from the spec: the error of 4.5 and section 7 that fails a whole request, the
  configuration error.
\<close>

datatype core_error = ConfigurationError

text \<open>
  Modelled from the spec: resolving the active distribution cycle (4.5). Zero or several
  active cycles are a configuration error.
\<close>

definition resolve_active_cycle :: "DistributionCycle list \<Rightarrow> core_error + DistributionCycle" where
  "resolve_active_cycle cs =
     (case filter (\<lambda>c. cycle_state c = cycle_active) cs of
        [c] \<Rightarrow> Inr c
      | _ \<Rightarrow> Inl ConfigurationError)"

text \<open>
  Modelled from the spec: the identifier that \<^verbatim>\<open>append\<close> assigns (4.3), here one
  above every identifier of the ledger.
\<close>

fun next_id :: "Transaction list \<Rightarrow> nat" where
  "next_id [] = 0"
| "next_id (t # ts) = max (Suc (transaction_ident t)) (next_id ts)"

text \<open>
  Modelled from the spec: \<^verbatim>\<open>append\<close> of the Transaction Ledger (4.3), which assigns the
  identifier and the timestamp (the clock is the argument \<open>now\<close>) and adds the record at
  the end.
\<close>

definition ledger_append :: "int \<Rightarrow> Transaction \<Rightarrow> Transaction list \<Rightarrow> Transaction \<times> Transaction list" where
  "ledger_append now t l =
     (let t' = t\<lparr>transaction_ident := next_id l, created_at := now\<rparr> in (t', l @ [t']))"

text \<open>
  Modelled from the spec: \<^verbatim>\<open>findByCardInCycle\<close> of the ledger (4.3), chronological
  with the oldest first. \<open>sort_key\<close> is stable: records of one timestamp stay in the
  order they were appended in.
\<close>

definition findByCardInCycle :: "string \<Rightarrow> nat \<Rightarrow> Transaction list \<Rightarrow> Transaction list" where
  "findByCardInCycle cardno cyc l =
     sort_key created_at (filter (\<lambda>t. transaction_card_number t = cardno \<and> cycle_id t = cyc) l)"

text \<open>
  Modelled from the spec: \<^verbatim>\<open>findByBeneficiaryInCycle\<close> of the ledger (4.3), in the
  same order.
\<close>

definition findByBeneficiaryInCycle :: "nat \<Rightarrow> nat \<Rightarrow> Transaction list \<Rightarrow> Transaction list" where
  "findByBeneficiaryInCycle b cyc l =
     sort_key created_at (filter (\<lambda>t. beneficiary_id t = Some b \<and> cycle_id t = cyc) l)"

subsection \<open>Duplicate rule evaluator\<close>

text \<open>
  Modelled from the spec: an alert specification as the evaluator of 4.4 returns it, type,
  severity, description and the conflicting transaction if any.
\<close>

record AlertSpec =
  spec_kind :: alert_type
  spec_severity :: severity
  spec_description :: string
  spec_previous :: "nat option"

text \<open>
  Modelled from the spec: the acceptance test of 4.2, \<^verbatim>\<open>confidence \<ge> THRESHOLD\<close>, which
  the missing \<^verbatim>\<open>face_recognition_service.py\<close> applies. No confidence (the comparator
  failed) is neither an accepted nor a rejected face.
\<close>

definition face_accepted :: "rat \<Rightarrow> rat option \<Rightarrow> bool" where
  "face_accepted threshold confidence =
     (case confidence of None \<Rightarrow> False | Some c \<Rightarrow> threshold \<le> c)"

text \<open>
  Modelled from the spec: the condition of rule 1, a confidence below the threshold.
\<close>

definition face_rejected :: "rat \<Rightarrow> rat option \<Rightarrow> bool" where
  "face_rejected threshold confidence =
     (case confidence of None \<Rightarrow> False | Some c \<Rightarrow> c < threshold)"

text \<open>
  Modelled from the spec: the comparison sets of 4.4 leave out the record that was just
  written for the current attempt.
\<close>

definition prior :: "Transaction \<Rightarrow> Transaction list \<Rightarrow> Transaction list" where
  "prior cur l = filter (\<lambda>t. transaction_ident t \<noteq> transaction_ident cur) l"

text \<open>
  Modelled from the spec: the prior successful transactions of a beneficiary in the cycle
  of the current attempt, which the rules 2 and 3 of 4.4 look at.
\<close>

definition prior_successes :: "Transaction \<Rightarrow> Transaction list \<Rightarrow> Beneficiary \<Rightarrow> Transaction list" where
  "prior_successes cur history b =
     filter (\<lambda>t. status t = status_success)
       (prior cur (findByBeneficiaryInCycle (beneficiary_ident b) (cycle_id cur) history))"

text \<open>
  Modelled from the spec: rule 1 of 4.4, \<^verbatim>\<open>different_person\<close>. A known beneficiary and
  a confidence below the threshold; severity critical, the description names the card, no
  previous transaction.
\<close>

definition rule_different_person :: "config \<Rightarrow> Transaction \<Rightarrow> Beneficiary option \<Rightarrow> AlertSpec list" where
  "rule_different_person cfg cur ben =
     (case ben of
        None \<Rightarrow> []
      | Some b \<Rightarrow>
          if face_rejected (face_match_threshold cfg) (face_match_confidence cur)
          then [\<lparr> spec_kind = different_person, spec_severity = critical,
                  spec_description = ''different person for card '' @ transaction_card_number cur,
                  spec_previous = None \<rparr>]
          else [])"

text \<open>
  Modelled from the spec: rule 2 of 4.4, \<^verbatim>\<open>duplicate_location\<close>. An accepted face and a
  prior successful transaction of the beneficiary in the cycle at another shop; severity
  high, the previous transaction is the latest of them.
\<close>

definition rule_duplicate_location ::
  "config \<Rightarrow> Transaction \<Rightarrow> Transaction list \<Rightarrow> Beneficiary option \<Rightarrow> AlertSpec list" where
  "rule_duplicate_location cfg cur history ben =
     (case ben of
        None \<Rightarrow> []
      | Some b \<Rightarrow>
          if face_accepted (face_match_threshold cfg) (face_match_confidence cur)
          then (case filter (\<lambda>t. shop_id t \<noteq> shop_id cur) (prior_successes cur history b) of
                  [] \<Rightarrow> []
                | t # ts \<Rightarrow>
                    [\<lparr> spec_kind = duplicate_location, spec_severity = high,
                       spec_description = ''duplicate location for card '' @ transaction_card_number cur,
                       spec_previous = Some (transaction_ident (last (t # ts))) \<rparr>])
          else [])"

text \<open>
  Modelled from the spec: rule 3 of 4.4, \<^verbatim>\<open>multiple_attempts\<close>. An accepted face and at
  least \<^verbatim>\<open>MAX_TRANSACTIONS_PER_CYCLE\<close> prior successful transactions of the beneficiary
  in the cycle; severity high, the previous transaction is the earliest of them.
\<close>

definition rule_multiple_attempts ::
  "config \<Rightarrow> Transaction \<Rightarrow> Transaction list \<Rightarrow> Beneficiary option \<Rightarrow> AlertSpec list" where
  "rule_multiple_attempts cfg cur history ben =
     (case ben of
        None \<Rightarrow> []
      | Some b \<Rightarrow>
          if face_accepted (face_match_threshold cfg) (face_match_confidence cur)
             \<and> max_transactions_per_cycle cfg \<le> length (prior_successes cur history b)
          then [\<lparr> spec_kind = multiple_attempts, spec_severity = high,
                  spec_description = ''multiple attempts for card '' @ transaction_card_number cur,
                  spec_previous =
                    (case prior_successes cur history b of
                       [] \<Rightarrow> None
                     | t # ts \<Rightarrow> Some (transaction_ident t)) \<rparr>]
          else [])"

text \<open>
  Modelled from the spec: what rule 2 captures, for the exclusion that rule 4 words as
  "the case already captured by rule 2 at the identical shop". Rule 2 only takes
  transactions at another shop, so a transaction it captures is never at the shop of the
  current attempt.
\<close>

definition captured_by_rule_2 :: "Transaction \<Rightarrow> Beneficiary option \<Rightarrow> Transaction \<Rightarrow> bool" where
  "captured_by_rule_2 cur ben t =
     (case ben of
        None \<Rightarrow> False
      | Some b \<Rightarrow> status t = status_success \<and> beneficiary_id t = Some (beneficiary_ident b)
                  \<and> shop_id t \<noteq> shop_id cur)"

text \<open>
  Modelled from the spec: the window of rule 4, \<^verbatim>\<open>DUPLICATE_TIME_WINDOW_HOURS\<close>, in
  seconds.
\<close>

definition window_seconds :: "config \<Rightarrow> int" where
  "window_seconds cfg = int (duplicate_time_window_hours cfg) * 3600"

text \<open>
  Modelled from the spec: the nearest-in-time transaction of rule 4, the one of a list
  closest in time to \<open>now\<close>; of two at the same distance the one further back in
  the list.
\<close>

fun nearest_in_time :: "int \<Rightarrow> Transaction list \<Rightarrow> Transaction option" where
  "nearest_in_time now [] = None"
| "nearest_in_time now (t # ts) =
     (case nearest_in_time now ts of
        None \<Rightarrow> Some t
      | Some u \<Rightarrow> if \<bar>created_at t - now\<bar> < \<bar>created_at u - now\<bar> then Some t else Some u)"

text \<open>
  Modelled from the spec: the comparison set of rule 4 of 4.4. The prior transactions of
  the card in the cycle, whatever their status and shop, at most the window away from the
  current attempt, without what the exclusion names.
\<close>

definition timing_candidates ::
  "config \<Rightarrow> Transaction \<Rightarrow> Transaction list \<Rightarrow> Beneficiary option \<Rightarrow> Transaction list" where
  "timing_candidates cfg cur history ben =
     filter (\<lambda>t. \<bar>created_at t - created_at cur\<bar> \<le> window_seconds cfg
                 \<and> \<not> (captured_by_rule_2 cur ben t \<and> shop_id t = shop_id cur))
       (prior cur (findByCardInCycle (transaction_card_number cur) (cycle_id cur) history))"

text \<open>
  Modelled from the spec: rule 4 of 4.4, \<^verbatim>\<open>suspicious_timing\<close>. An accepted face and a
  comparison set that is not empty; severity medium, the previous transaction is the
  nearest in time.
\<close>

definition rule_suspicious_timing ::
  "config \<Rightarrow> Transaction \<Rightarrow> Transaction list \<Rightarrow> Beneficiary option \<Rightarrow> AlertSpec list" where
  "rule_suspicious_timing cfg cur history ben =
     (if face_accepted (face_match_threshold cfg) (face_match_confidence cur)
      then (case nearest_in_time (created_at cur) (timing_candidates cfg cur history ben) of
              None \<Rightarrow> []
            | Some p \<Rightarrow>
                [\<lparr> spec_kind = suspicious_timing, spec_severity = medium,
                   spec_description = ''suspicious timing for card '' @ transaction_card_number cur,
                   spec_previous = Some (transaction_ident p) \<rparr>])
      else [])"

text \<open>
  Modelled from the spec: the evaluator of 4.4, in \<^verbatim>\<open>duplicate_detection.py\<close>. All four
  rules are evaluated, each on its own, and their alerts come in the order of the rules.
\<close>

definition evaluate ::
  "config \<Rightarrow> Transaction \<Rightarrow> Transaction list \<Rightarrow> Beneficiary option \<Rightarrow> AlertSpec list" where
  "evaluate cfg cur history ben =
     rule_different_person cfg cur ben @ rule_duplicate_location cfg cur history ben
       @ rule_multiple_attempts cfg cur history ben @ rule_suspicious_timing cfg cur history ben"

text \<open>
  Modelled from the spec: the derived status of 4.4. Failed when the card is unknown or
  the face is not accepted, flagged when the face is accepted and one of the rules 2 to 4
  fired, success otherwise.
\<close>

definition final_status :: "bool \<Rightarrow> bool \<Rightarrow> AlertSpec list \<Rightarrow> transaction_status" where
  "final_status known accepted specs =
     (if \<not> known \<or> \<not> accepted then status_failed
      else if list_ex (\<lambda>a. spec_kind a = duplicate_location \<or> spec_kind a = multiple_attempts
                              \<or> spec_kind a = suspicious_timing) specs
        then status_flagged
      else status_success)"

subsection \<open>Verification orchestrator\<close>

text \<open>
  Modelled from the spec: the \<^verbatim>\<open>VerificationResult\<close> of section 6. The specification
  gives the message as text without fixing the texts; the cases it tells apart are card
  not registered, service unavailable, face rejected, and verified without and with alerts.
\<close>

datatype result_message =
  card_not_registered | service_unavailable | face_rejected_message | verified
  | verified_with_alerts

record VerificationResult =
  accepted :: bool
  transaction_status :: transaction_status
  confidence :: "rat option"
  result_alerts :: "AlertSpec list"
  result_message :: result_message

text \<open>
  Modelled from the spec: the step of 4.5 that attaches the final status to the record
  written for the attempt.
\<close>

definition set_status :: "nat \<Rightarrow> transaction_status \<Rightarrow> Transaction list \<Rightarrow> Transaction list" where
  "set_status tid st l = map (\<lambda>t. if transaction_ident t = tid then t\<lparr>status := st\<rparr> else t) l"

text \<open>
  Modelled from the spec: the alert stored for a specification of the evaluator (3, 4.5),
  linked to the transaction of the attempt and pending review.
\<close>

definition to_alert :: "nat \<Rightarrow> AlertSpec \<Rightarrow> DuplicateAlert" where
  "to_alert tid a =
     \<lparr> alert_kind = spec_kind a, transaction_id = tid,
       previous_transaction_id = spec_previous a, alert_severity = spec_severity a,
       description = spec_description a, alert_state = pending,
       reviewed_by = None, reviewed_at = None \<rparr>"

text \<open>
  Modelled from the spec: \<^verbatim>\<open>Verify(card_number, shop_id, face_sample, operator_id)\<close>, the
  orchestrator of 4.5 behind \<^verbatim>\<open>POST /api/verify\<close> in the missing \<^verbatim>\<open>backend/main.py\<close>.
  \<^item> The active cycle is resolved first, since every record of the ledger carries its
    cycle; without exactly one active cycle the request fails with a configuration error
    and the ledger is not touched.
  \<^item> A card the registry does not know is recorded as a failed transaction without
    beneficiary, and the rules are not evaluated.
  \<^item> The face comparator is outside the core: \<open>compare\<close> stands for its answer to this
    request, \<open>None\<close> when the service fails. Then the transaction is failed, without
    confidence.
  \<^item> The record is written, the rules are evaluated on the ledger of the cycle that now
    holds it, the record gets its final status and the alerts are stored.
\<close>

definition Verify ::
  "config \<Rightarrow> (string \<Rightarrow> string \<Rightarrow> rat option) \<Rightarrow> int \<Rightarrow> string \<Rightarrow> string \<Rightarrow> string \<Rightarrow> string
     \<Rightarrow> core_state \<Rightarrow> core_error + VerificationResult \<times> core_state" where
  "Verify cfg compare now cardno shop face_sample operator_id s =
     (case resolve_active_cycle (cycles s) of
        Inl e \<Rightarrow> Inl e
      | Inr cyc \<Rightarrow>
          (case lookup cardno (registry s) of
             None \<Rightarrow>
               (let (t, l) = ledger_append now
                      \<lparr> transaction_ident = 0, beneficiary_id = None,
                        transaction_card_number = cardno, shop_id = shop,
                        cycle_id = cycle_ident cyc, face_match_confidence = None,
                        status = status_failed, created_at = now \<rparr> (ledger s)
                in Inr (\<lparr> accepted = False, transaction_status = status_failed,
                          confidence = None, result_alerts = [],
                          result_message = card_not_registered \<rparr>,
                        s\<lparr>ledger := l\<rparr>))
           | Some b \<Rightarrow>
               (let conf = compare (reference_face_embedding b) face_sample;
                    ok = face_accepted (face_match_threshold cfg) conf;
                    (t, l) = ledger_append now
                      \<lparr> transaction_ident = 0, beneficiary_id = Some (beneficiary_ident b),
                        transaction_card_number = cardno, shop_id = shop,
                        cycle_id = cycle_ident cyc, face_match_confidence = conf,
                        status = (if ok then status_success else status_failed),
                        created_at = now \<rparr> (ledger s);
                    history = filter (\<lambda>x. cycle_id x = cycle_ident cyc) l;
                    specs = evaluate cfg t history (Some b);
                    st = final_status True ok specs
                in Inr (\<lparr> accepted = ok, transaction_status = st, confidence = conf,
                          result_alerts = specs,
                          result_message =
                            (if conf = None then service_unavailable
                             else if \<not> ok then face_rejected_message
                             else if st = status_flagged then verified_with_alerts
                             else verified) \<rparr>,
                        s\<lparr>ledger := set_status (transaction_ident t) st l,
                          alerts := alerts s @ map (to_alert (transaction_ident t)) specs\<rparr>))))"

section \<open>Example data\<close>

text \<open>
  A datastore with one beneficiary, the first sample shop and the initial cycle of the
  migration, one alert that has been resolved and one that is pending.
\<close>

definition example_alert :: "uuid \<Rightarrow> string \<Rightarrow> duplicate_alerts_row" where
  "example_alert i st =
     \<lparr> a_id = i, a_alert_type = ''different_person'', a_beneficiary_id = Some ''b1'',
       a_card_number = ''BPL001'', a_transaction_id = None,
       a_previous_transaction_id = None, a_shop_id = ''s1'',
       a_description = ''Face mismatch'', a_severity = Some ''critical'',
       a_status = Some st,
       a_reviewed_by = (if st = ''pending'' then None else Some ''Admin''),
       a_reviewed_at = (if st = ''pending'' then None else Some 100),
       a_created_at = Some 50 \<rparr>"

definition example_db :: database where
  "example_db =
     \<lparr> beneficiaries =
         [\<lparr> b_id = ''b1'', b_card_number = ''BPL001'', b_name = ''Asha'',
             b_phone = Some [], b_address = Some [],
             b_face_image_url = Some ''data:image/jpeg;base64,AAAA...'',
             b_face_embedding = Some ''data:image/jpeg;base64,AAAA'',
             b_status = Some ''suspended'', b_created_at = Some 10, b_updated_at = Some 10 \<rparr>],
       ration_shops =
         [\<lparr> s_id = ''s1'', s_shop_code = ''RS001'', s_name = ''Central Ration Shop'',
             s_location = ''123 Market Street, Downtown'', s_district = ''Central District'',
             s_state = Some ''State A'', s_operator_name = Some ''Rajesh Kumar'',
             s_created_at = Some 0 \<rparr>],
       distribution_cycles =
         [\<lparr> c_id = ''c1'', c_cycle_name = ''December 2025'', c_start_date = 1,
             c_end_date = 31, c_status = Some ''active'', c_created_at = Some 0 \<rparr>],
       transactions = [],
       duplicate_alerts = [example_alert ''a1'' ''resolved'', example_alert ''a2'' ''pending''] \<rparr>"

definition example_registration :: registration_state where
  "example_registration =
     \<lparr> formData = \<lparr> card_number = ''BPL002'', name = ''Ravi'', phone = [], address = [] \<rparr>,
       capturedImage = Some ''data:image/jpeg;base64,BBBB'',
       loading = False,
       message = None \<rparr>"

definition example_transaction :: "string option \<Rightarrow> transactions_row" where
  "example_transaction st =
     \<lparr> t_id = ''t1'', t_beneficiary_id = Some ''b1'', t_card_number = ''BPL001'',
       t_shop_id = ''s1'', t_cycle_id = Some ''c1'', t_verification_type = Some ''face'',
       t_face_match_confidence = Some 90, t_captured_image_url = None, t_status = st,
       t_items_collected = Some ''[]'', t_operator_id = Some ''OP001'', t_notes = None,
       t_created_at = Some 60 \<rparr>"

text \<open>
  A state of the core with one beneficiary and one active cycle, and a comparator that
  fails on the empty sample, gives 30 on the sample \<open>other\<close> and 90 on any other.
\<close>

definition example_core :: core_state where
  "example_core =
     \<lparr> registry =
         [\<lparr> beneficiary_ident = 7, beneficiary_card_number = ''BPL001'',
             identity_name = ''Asha'', reference_face_embedding = ''ref'',
             beneficiary_state = active \<rparr>],
       cycles = [\<lparr> cycle_ident = 1, start_date = 1, end_date = 31, cycle_state = cycle_active \<rparr>],
       ledger = [],
       alerts = [] \<rparr>"

text \<open>The configuration with the threshold at 60 of 100.\<close>

definition example_config :: config where
  "example_config = default_config\<lparr>face_match_threshold := 60\<rparr>"

text \<open>
  An older record of the card of the example, 200000 seconds before the epoch of the
  clock, at a third shop.
\<close>

definition example_ledger :: "Transaction list" where
  "example_ledger =
     [\<lparr> transaction_ident = 0, beneficiary_id = Some 7,
         transaction_card_number = ''BPL001'', shop_id = ''s3'', cycle_id = 1,
         face_match_confidence = Some 95, status = status_success,
         created_at = - 200000 \<rparr>]"

definition example_compare :: "string \<Rightarrow> string \<Rightarrow> rat option" where
  "example_compare reference sample =
     (if sample = [] then None else if sample = ''other'' then Some 30 else Some 90)"

section \<open>Properties of the registration\<close>

lemma insert_beneficiaries_Inr:
  "insert_beneficiaries r row db = Inr db' \<Longrightarrow>
     r = authenticated \<and> b_card_number row \<notin> set (map b_card_number (beneficiaries db)) \<and>
     b_id row \<notin> set (map b_id (beneficiaries db)) \<and>
     db' = db\<lparr>beneficiaries := beneficiaries db @ [row]\<rparr>"
  by (auto simp: insert_beneficiaries_def split: if_splits)

text \<open>A submission either leaves the datastore alone and reports an error, or inserts.\<close>

lemma handleSubmit_steps_cases:
  assumes "handleSubmit_steps r new_id now st db_check db = (st', db')"
  obtains (rejected) m where "db' = db" and "message st' = Some (error, m)"
  | (inserted) img where "capturedImage st = Some img"
      and "insert_beneficiaries r (beneficiaryData new_id now (formData st) img) db = Inr db'"
      and "message st' = Some (success, ''Beneficiary registered successfully!'')"
  using assms
  by (auto simp: handleSubmit_steps_def split: option.splits if_splits sum.splits)

text \<open>
  C8. A submission without image (none, or the empty string), or with an empty card
  number or name, is rejected with an error message before the datastore is asked
  anything: the datastore is unchanged, and of the component only the message changes.
\<close>

theorem register_validation_rejects:
  assumes "capturedImage st = None \<or> capturedImage st = Some [] \<or>
           card_number (formData st) = [] \<or> name (formData st) = []"
  shows "snd (handleSubmit_steps r new_id now st db_check db) = db \<and>
         fst (handleSubmit_steps r new_id now st db_check db) \<in>
           {st\<lparr>message := Some (error, ''Please capture or upload a face image'')\<rparr>,
            st\<lparr>message := Some (error, ''Card number and name are required'')\<rparr>}"
  using assms by (auto simp: handleSubmit_steps_def split: option.splits)

theorem register_validation_rejects_witness:
  "name (formData (example_registration\<lparr>formData := empty_form\<rparr>)) = [] \<and>
   snd (handleSubmit_steps authenticated ''b2'' 20
          (example_registration\<lparr>formData := empty_form\<rparr>) example_db example_db) = example_db \<and>
   message (fst (handleSubmit_steps authenticated ''b2'' 20
          (example_registration\<lparr>formData := empty_form\<rparr>) example_db example_db))
     = Some (error, ''Card number and name are required'')"
  using register_validation_rejects
    [of "example_registration\<lparr>formData := empty_form\<rparr>" authenticated "''b2''" 20
        example_db example_db]
  by (simp add: empty_form_def example_registration_def handleSubmit_steps_def)

text \<open>
  C10. A successful registration stores one new row whose \<^verbatim>\<open>face_embedding\<close> is the
  captured data URL itself and whose \<^verbatim>\<open>face_image_url\<close> is its first 100 characters
  followed by three dots, a text of at most 103 characters.
\<close>

theorem register_stores_image:
  assumes "handleSubmit_steps r new_id now st db_check db = (st', db')"
    and "map_option fst (message st') = Some success"
  shows "\<exists>img row. capturedImage st = Some img \<and>
           beneficiaries db' = beneficiaries db @ [row] \<and>
           b_face_embedding row = Some img \<and>
           b_face_image_url row = Some (take 100 img @ ''...'') \<and>
           length (take 100 img @ ''...'') \<le> 103"
  using assms(1)
proof (cases rule: handleSubmit_steps_cases)
  case (rejected m)
  with assms(2) show ?thesis by simp
next
  case (inserted img)
  from insert_beneficiaries_Inr [OF inserted(2)]
  have "beneficiaries db' = beneficiaries db @ [beneficiaryData new_id now (formData st) img]"
    by simp
  with inserted(1) show ?thesis
    by (auto simp: beneficiaryData_def)
qed

theorem register_stores_image_witness:
  "map_option fst (message (fst (handleSubmit_steps authenticated ''b2'' 20
      example_registration example_db example_db))) = Some success \<and>
   (\<exists>img row. capturedImage example_registration = Some img \<and>
      beneficiaries (snd (handleSubmit_steps authenticated ''b2'' 20
        example_registration example_db example_db)) = beneficiaries example_db @ [row] \<and>
      b_face_embedding row = Some img \<and>
      b_face_image_url row = Some (take 100 img @ ''...'') \<and>
      length (take 100 img @ ''...'') \<le> 103)"
proof -
  have ok: "map_option fst (message (fst (handleSubmit_steps authenticated ''b2'' 20
      example_registration example_db example_db))) = Some success"
    by (simp add: handleSubmit_steps_def example_registration_def example_db_def
        select_beneficiaries_by_card_def insert_beneficiaries_def beneficiaryData_def
        beneficiaries_status_check_def check_in_def)
  from register_stores_image [OF surjective_pairing ok] ok show ?thesis by simp
qed

text \<open>
  C3. Card numbers stay unique: a submission leaves a table without repeated card numbers
  in that state, whatever the \<^verbatim>\<open>existingCheck\<close> select saw before. When the card number
  is in the table at the time of the insert, whatever the status of its row, the
  submission ends with an error message and the datastore unchanged. The insert of the
  datastore alone already refuses a card number that is present.
\<close>

theorem register_card_number_unique:
  "(distinct (map b_card_number (beneficiaries db)) \<longrightarrow>
      distinct (map b_card_number
        (beneficiaries (snd (handleSubmit_steps r new_id now st db_check db))))) \<and>
   (card_number (formData st) \<in> set (map b_card_number (beneficiaries db)) \<longrightarrow>
      snd (handleSubmit_steps r new_id now st db_check db) = db \<and>
      map_option fst (message (fst (handleSubmit_steps r new_id now st db_check db)))
        = Some error) \<and>
   (\<forall>row db'. insert_beneficiaries r row db = Inr db' \<longrightarrow>
      b_card_number row \<notin> set (map b_card_number (beneficiaries db)))"
proof -
  obtain st' db' where res: "handleSubmit_steps r new_id now st db_check db = (st', db')"
    by (cases "handleSubmit_steps r new_id now st db_check db")
  have "distinct (map b_card_number (beneficiaries db'))"
    if d: "distinct (map b_card_number (beneficiaries db))"
    using res
  proof (cases rule: handleSubmit_steps_cases)
    case (rejected m)
    with d show ?thesis by simp
  next
    case (inserted img)
    from insert_beneficiaries_Inr [OF inserted(2)] d show ?thesis by simp
  qed
  moreover have "db' = db \<and> map_option fst (message st') = Some error"
    if p: "card_number (formData st) \<in> set (map b_card_number (beneficiaries db))"
    using res
  proof (cases rule: handleSubmit_steps_cases)
    case (rejected m)
    then show ?thesis by simp
  next
    case (inserted img)
    from insert_beneficiaries_Inr [OF inserted(2)] p show ?thesis
      by (simp add: beneficiaryData_def)
  qed
  moreover have "b_card_number row \<notin> set (map b_card_number (beneficiaries db))"
    if "insert_beneficiaries r row db = Inr db''" for row db''
    using insert_beneficiaries_Inr [OF that] by simp
  ultimately show ?thesis using res by simp
qed

theorem register_card_number_unique_witness:
  "distinct (map b_card_number (beneficiaries example_db)) \<and>
   card_number (formData (example_registration
      \<lparr>formData := (formData example_registration)\<lparr>card_number := ''BPL001''\<rparr>\<rparr>))
     \<in> set (map b_card_number (beneficiaries example_db)) \<and>
   snd (handleSubmit_steps authenticated ''b2'' 20
      (example_registration\<lparr>formData := (formData example_registration)\<lparr>card_number := ''BPL001''\<rparr>\<rparr>)
      (example_db\<lparr>beneficiaries := []\<rparr>) example_db) = example_db \<and>
   map_option fst (message (fst (handleSubmit_steps authenticated ''b2'' 20
      (example_registration\<lparr>formData := (formData example_registration)\<lparr>card_number := ''BPL001''\<rparr>\<rparr>)
      (example_db\<lparr>beneficiaries := []\<rparr>) example_db))) = Some error"
  using register_card_number_unique
    [of example_db authenticated "''b2''" 20
        "example_registration\<lparr>formData := (formData example_registration)\<lparr>card_number := ''BPL001''\<rparr>\<rparr>"
        "example_db\<lparr>beneficiaries := []\<rparr>"]
  by (simp add: example_db_def example_registration_def)

section \<open>Properties of the alert review\<close>

lemma button_status_check: "duplicate_alerts_status_check (Some (button_status b))"
  by (cases b) (simp_all add: duplicate_alerts_status_check_def check_in_def)

lemma handleReviewAlert_authenticated:
  assumes "duplicate_alerts_status_check (Some new_status)"
  shows "handleReviewAlert authenticated now alertId new_status db =
           db\<lparr>duplicate_alerts :=
                map (\<lambda>a. if a_id a = alertId
                          then a\<lparr>a_status := Some new_status, a_reviewed_by := Some ''Admin'',
                                 a_reviewed_at := Some now\<rparr>
                          else a)
                    (duplicate_alerts db)\<rparr>"
  using assms by (simp add: handleReviewAlert_def update_duplicate_alerts_def)

text \<open>
  C2, as the code has it. The dashboard renders the two review buttons of an alert
  exactly when the copy of the alert it loaded last is pending. \<^verbatim>\<open>handleReviewAlert\<close>
  itself never looks at the status the alert has in the datastore: in an authenticated
  session, with a status the column admits, every alert of the given id gets the new
  status, whatever it had, and no other alert changes its status or id.
\<close>

theorem review_ignores_current_status:
  assumes "r = authenticated" and "duplicate_alerts_status_check (Some new_status)"
  shows "(review_buttons_rendered alert \<longleftrightarrow> a_status alert = Some ''pending'') \<and>
         map a_status (duplicate_alerts (handleReviewAlert r now alertId new_status db))
           = map (\<lambda>a. if a_id a = alertId then Some new_status else a_status a)
               (duplicate_alerts db) \<and>
         map a_id (duplicate_alerts (handleReviewAlert r now alertId new_status db))
           = map a_id (duplicate_alerts db)"
  using assms
  by (simp add: handleReviewAlert_authenticated review_buttons_rendered_def comp_def if_distrib
      cong: if_cong)

theorem review_ignores_current_status_witness:
  "duplicate_alerts_status_check (Some ''resolved'') \<and>
   map a_status (duplicate_alerts (handleReviewAlert authenticated 200 ''a2'' ''resolved'' example_db))
     = [Some ''resolved'', Some ''resolved'']"
  using review_ignores_current_status
    [of authenticated "''resolved''" "example_alert ''a2'' ''pending''" 200 "''a2''" example_db]
  by (simp add: duplicate_alerts_status_check_def check_in_def example_db_def example_alert_def)

text \<open>
  The claim as the specification words it fails: the alert \<open>a1\<close> of the example is
  resolved in the datastore, a dashboard that still shows its pending copy renders the
  buttons, and Dismiss overwrites the resolved alert.
\<close>

theorem review_resolved_alert_counterexample:
  "map a_status (duplicate_alerts example_db) = [Some ''resolved'', Some ''pending''] \<and>
   review_buttons_rendered (example_alert ''a1'' ''pending'') \<and>
   duplicate_alerts (onClick authenticated 200 Dismiss (example_alert ''a1'' ''pending'') example_db)
     = [(example_alert ''a1'' ''resolved'')\<lparr>a_status := Some ''dismissed'', a_reviewed_at := Some 200\<rparr>,
        example_alert ''a2'' ''pending''] \<and>
   onClick authenticated 200 Dismiss (example_alert ''a1'' ''pending'') example_db \<noteq> example_db"
  by (simp add: onClick_def handleReviewAlert_authenticated duplicate_alerts_status_check_def
      check_in_def review_buttons_rendered_def example_db_def example_alert_def)

text \<open>
  C9. A review through the dashboard, by either button and in an authenticated session,
  keeps the alerts of the table in place, and every alert with the id of the reviewed one
  then has \<^verbatim>\<open>reviewed_by = 'Admin'\<close>, \<^verbatim>\<open>reviewed_at\<close> the time of the click and the
  status of the button. Who reviews is no argument of the handler.
\<close>

theorem review_records_admin:
  assumes "r = authenticated"
  shows "map a_id (duplicate_alerts (onClick r now b alert db)) = map a_id (duplicate_alerts db) \<and>
         (\<forall>a\<in>set (duplicate_alerts (onClick r now b alert db)).
            a_id a = a_id alert \<longrightarrow>
              a_reviewed_by a = Some ''Admin'' \<and> a_reviewed_at a = Some now
              \<and> a_status a = Some (button_status b))"
  using assms
  by (auto simp: onClick_def handleReviewAlert_authenticated button_status_check comp_def
      cong: if_cong)

theorem review_records_admin_witness:
  "review_buttons_rendered (example_alert ''a2'' ''pending'') \<and>
   map a_id (duplicate_alerts
      (onClick authenticated 200 Resolve (example_alert ''a2'' ''pending'') example_db))
     = [''a1'', ''a2''] \<and>
   a_reviewed_by (last (duplicate_alerts
      (onClick authenticated 200 Resolve (example_alert ''a2'' ''pending'') example_db)))
     = Some ''Admin'' \<and>
   a_reviewed_at (last (duplicate_alerts
      (onClick authenticated 200 Resolve (example_alert ''a2'' ''pending'') example_db)))
     = Some 200"
proof -
  define db' where
    "db' = onClick authenticated 200 Resolve (example_alert ''a2'' ''pending'') example_db"
  from review_records_admin
    [of authenticated 200 Resolve "example_alert ''a2'' ''pending''" example_db]
  have ids: "map a_id (duplicate_alerts db') = [''a1'', ''a2'']"
    and all: "\<forall>a\<in>set (duplicate_alerts db'). a_id a = ''a2'' \<longrightarrow>
                a_reviewed_by a = Some ''Admin'' \<and> a_reviewed_at a = Some 200"
    by (simp_all add: db'_def example_db_def example_alert_def)
  from ids have ne: "duplicate_alerts db' \<noteq> []" by auto
  then have "last (duplicate_alerts db') \<in> set (duplicate_alerts db')" by simp
  moreover have "a_id (last (duplicate_alerts db')) = ''a2''"
    using ids ne by (simp add: last_map [symmetric])
  ultimately have "a_reviewed_by (last (duplicate_alerts db')) = Some ''Admin''"
    "a_reviewed_at (last (duplicate_alerts db')) = Some 200"
    using all by blast+
  moreover have "review_buttons_rendered (example_alert ''a2'' ''pending'')"
    by (simp add: review_buttons_rendered_def example_alert_def)
  ultimately show ?thesis using ids unfolding db'_def by simp
qed

section \<open>Properties of the transactions table\<close>

lemma transactions_status_check_values:
  "transactions_status_check v \<longleftrightarrow>
     v \<in> {None, Some ''success'', Some ''failed'', Some ''flagged'', Some ''pending''}"
  by (cases v) (auto simp: transactions_status_check_def check_in_def)

lemma insert_transactions_Inr:
  "insert_transactions r row db = Inr db' \<Longrightarrow>
     transactions_status_check (t_status row) \<and>
     db' = db\<lparr>transactions := transactions db @ [row]\<rparr>"
  by (simp add: insert_transactions_def split: if_splits)

text \<open>
  C4, as the code has it. The statuses the table admits are the four of the front end's
  type, success, failed, flagged and pending, and \<^verbatim>\<open>NULL\<close>, the column being nullable:
  a table whose rows have such a status keeps the property with every accepted insert.
\<close>

theorem transactions_status_values:
  assumes "insert_transactions r row db = Inr db'"
    and "\<forall>t\<in>set (transactions db). t_status t = None \<or> the (t_status t) \<in> set Transaction_status"
  shows "\<forall>t\<in>set (transactions db'). t_status t = None \<or> the (t_status t) \<in> set Transaction_status"
proof -
  from insert_transactions_Inr [OF assms(1)]
  have row: "transactions_status_check (t_status row)"
    and db': "transactions db' = transactions db @ [row]" by simp_all
  from row have "t_status row = None \<or> the (t_status row) \<in> set Transaction_status"
    unfolding transactions_status_check_values by (auto simp: Transaction_status_def)
  with assms(2) db' show ?thesis by auto
qed

theorem transactions_status_values_witness:
  "insert_transactions authenticated (example_transaction (Some ''flagged'')) example_db
     = Inr (example_db\<lparr>transactions := [example_transaction (Some ''flagged'')]\<rparr>) \<and>
   (t_status (example_transaction (Some ''flagged'')) = None
      \<or> the (t_status (example_transaction (Some ''flagged''))) \<in> set Transaction_status)"
proof -
  have ins: "insert_transactions authenticated (example_transaction (Some ''flagged'')) example_db
     = Inr (example_db\<lparr>transactions := [example_transaction (Some ''flagged'')]\<rparr>)"
    by (simp add: insert_transactions_def example_transaction_def example_db_def
        transactions_verification_type_check_def transactions_face_match_confidence_check_def
        transactions_status_check_def check_in_def references_def)
  have "\<forall>t\<in>set (transactions example_db).
          t_status t = None \<or> the (t_status t) \<in> set Transaction_status"
    by (simp add: example_db_def)
  from transactions_status_values [OF ins this] ins show ?thesis by simp
qed

text \<open>
  The claim with three values fails: the table takes a transaction whose status is
  pending.
\<close>

theorem transactions_status_pending_counterexample:
  "insert_transactions authenticated (example_transaction (Some ''pending'')) example_db
     = Inr (example_db\<lparr>transactions := [example_transaction (Some ''pending'')]\<rparr>) \<and>
   t_status (example_transaction (Some ''pending''))
     \<notin> {Some ''success'', Some ''failed'', Some ''flagged''}"
  by (simp add: insert_transactions_def example_transaction_def example_db_def
      transactions_verification_type_check_def transactions_face_match_confidence_check_def
      transactions_status_check_def check_in_def references_def)

section \<open>Properties of the verification core\<close>

lemma next_id_fresh: "t \<in> set l \<Longrightarrow> transaction_ident t < next_id l"
  by (induction l) auto

lemma set_status_last:
  assumes "\<forall>x\<in>set l. transaction_ident x \<noteq> transaction_ident t"
  shows "set_status (transaction_ident t) st (l @ [t]) = l @ [t\<lparr>status := st\<rparr>]"
proof -
  have "map (\<lambda>x. if transaction_ident x = transaction_ident t then x\<lparr>status := st\<rparr> else x) l = l"
    using assms by (intro map_idI) simp
  then show ?thesis by (simp add: set_status_def)
qed

lemma Verify_no_cycle:
  "resolve_active_cycle (cycles s) = Inl e \<Longrightarrow>
     Verify cfg compare now cardno shop sample opr s = Inl ConfigurationError"
  by (cases e) (simp add: Verify_def)

lemma Verify_Inr_cycle:
  "Verify cfg compare now cardno shop sample opr s = Inr x \<Longrightarrow>
     \<exists>cyc. resolve_active_cycle (cycles s) = Inr cyc"
  by (cases "resolve_active_cycle (cycles s)") (simp_all add: Verify_def)

lemma Verify_unknown:
  assumes "resolve_active_cycle (cycles s) = Inr cyc" and "lookup cardno (registry s) = None"
  shows "Verify cfg compare now cardno shop sample opr s =
     Inr (\<lparr> accepted = False, transaction_status = status_failed, confidence = None,
             result_alerts = [], result_message = card_not_registered \<rparr>,
          s\<lparr>ledger := ledger s @
             [\<lparr> transaction_ident = next_id (ledger s), beneficiary_id = None,
                 transaction_card_number = cardno, shop_id = shop,
                 cycle_id = cycle_ident cyc, face_match_confidence = None,
                 status = status_failed, created_at = now \<rparr>]\<rparr>)"
  using assms by (simp add: Verify_def ledger_append_def Let_def)

text \<open>
  The call for a known card, spelled out: \<open>t\<close> is the record as it is written, \<open>specs\<close>
  the alerts of the evaluator on the ledger of the cycle with that record at its end.
\<close>

lemma Verify_known:
  fixes cfg :: config and compare :: "string \<Rightarrow> string \<Rightarrow> rat option" and now :: int
    and cardno shop sample opr :: string and s :: core_state
    and cyc :: DistributionCycle and b :: Beneficiary
  assumes "resolve_active_cycle (cycles s) = Inr cyc" and "lookup cardno (registry s) = Some b"
  defines "conf \<equiv> compare (reference_face_embedding b) sample"
  defines "ok \<equiv> face_accepted (face_match_threshold cfg) conf"
  defines "t \<equiv> \<lparr> transaction_ident = next_id (ledger s),
                  beneficiary_id = Some (beneficiary_ident b),
                  transaction_card_number = cardno, shop_id = shop,
                  cycle_id = cycle_ident cyc, face_match_confidence = conf,
                  status = (if ok then status_success else status_failed),
                  created_at = now \<rparr>"
  defines "specs \<equiv>
    evaluate cfg t (filter (\<lambda>x. cycle_id x = cycle_ident cyc) (ledger s @ [t])) (Some b)"
  shows "\<exists>res. Verify cfg compare now cardno shop sample opr s =
            Inr (res, s\<lparr>ledger := ledger s @ [t\<lparr>status := final_status True ok specs\<rparr>],
                       alerts := alerts s @ map (to_alert (next_id (ledger s))) specs\<rparr>)
          \<and> accepted res = ok \<and> transaction_status res = final_status True ok specs
          \<and> confidence res = conf \<and> result_alerts res = specs
          \<and> result_message res =
                (if conf = None then service_unavailable
                 else if \<not> ok then face_rejected_message
                 else if final_status True ok specs = status_flagged then verified_with_alerts
                 else verified)"
proof -
  have fresh: "\<forall>x\<in>set (ledger s). transaction_ident x \<noteq> transaction_ident t"
    using next_id_fresh by (fastforce simp: t_def)
  have tid: "transaction_ident t = next_id (ledger s)" by (simp add: t_def)
  have la: "ledger_append now
      \<lparr> transaction_ident = 0, beneficiary_id = Some (beneficiary_ident b),
        transaction_card_number = cardno, shop_id = shop,
        cycle_id = cycle_ident cyc, face_match_confidence = conf,
        status = (if ok then status_success else status_failed),
        created_at = now \<rparr> (ledger s) = (t, ledger s @ [t])"
    by (simp add: ledger_append_def t_def Let_def)
  have ct: "cycle_id t = cycle_ident cyc" by (simp add: t_def)
  have ss: "\<And>st. set_status (next_id (ledger s)) st (ledger s @ [t])
              = ledger s @ [t\<lparr>status := st\<rparr>]"
    using set_status_last [OF fresh] by (simp add: tid)
  show ?thesis
    unfolding Verify_def specs_def
    using assms(1,2) by (simp add: Let_def la [unfolded conf_def ok_def] tid ct ss conf_def ok_def)
qed

lemma different_person_fires:
  assumes "face_match_confidence cur = Some c" and "c < face_match_threshold cfg"
  shows "\<exists>a\<in>set (evaluate cfg cur history (Some b)).
           spec_kind a = different_person \<and> spec_severity a = critical \<and> spec_previous a = None"
  using assms by (simp add: evaluate_def rule_different_person_def face_rejected_def)

lemma evaluate_no_confidence:
  "face_match_confidence cur = None \<Longrightarrow> evaluate cfg cur history (Some b) = []"
  by (simp add: evaluate_def rule_different_person_def rule_duplicate_location_def
      rule_multiple_attempts_def rule_suspicious_timing_def face_rejected_def face_accepted_def)

text \<open>
  C1. A Verify call that gets as far as a result, for a card the registry knows and with
  a confidence of the comparator below the threshold: the status of the result and of the
  one record added to the ledger is failed, whatever the ledger held before (an empty
  ledger too), and a critical \<^verbatim>\<open>different_person\<close> alert is in the result and stored
  for that record.
\<close>

theorem verify_face_rejected:
  assumes "Verify cfg compare now cardno shop sample opr s = Inr (res, s')"
    and "lookup cardno (registry s) = Some b"
    and "compare (reference_face_embedding b) sample = Some c"
    and "c < face_match_threshold cfg"
  shows "transaction_status res = status_failed
     \<and> (\<exists>t. ledger s' = ledger s @ [t] \<and> status t = status_failed
            \<and> transaction_card_number t = cardno
            \<and> (\<exists>a\<in>set (alerts s'). alert_kind a = different_person
                  \<and> alert_severity a = critical \<and> transaction_id a = transaction_ident t))
     \<and> (\<exists>a\<in>set (result_alerts res). spec_kind a = different_person
            \<and> spec_severity a = critical)"
proof -
  from Verify_Inr_cycle [OF assms(1)] obtain cyc
    where cyc: "resolve_active_cycle (cycles s) = Inr cyc" ..
  have nok: "\<not> face_accepted (face_match_threshold cfg) (Some c)"
    using assms(4) by (simp add: face_accepted_def)
  define t where "t = \<lparr> transaction_ident = next_id (ledger s),
                  beneficiary_id = Some (beneficiary_ident b),
                  transaction_card_number = cardno, shop_id = shop,
                  cycle_id = cycle_ident cyc, face_match_confidence = Some c,
                  status = status_failed, created_at = now \<rparr>"
  define specs where
    "specs = evaluate cfg t (filter (\<lambda>x. cycle_id x = cycle_ident cyc) (ledger s @ [t])) (Some b)"
  from Verify_known [OF cyc assms(2), where cfg=cfg and compare=compare and sample=sample
      and now=now and shop=shop and opr=opr] assms(1,3) nok
  have res: "transaction_status res = final_status True False specs"
    "result_alerts res = specs"
    and s': "s' = s\<lparr>ledger := ledger s @ [t\<lparr>status := final_status True False specs\<rparr>],
                  alerts := alerts s @ map (to_alert (next_id (ledger s))) specs\<rparr>"
    by (auto simp: t_def specs_def)
  have fs: "final_status True False specs = status_failed"
    by (simp add: final_status_def)
  from different_person_fires [of t c cfg _ b] assms(4)
  obtain a where a: "a \<in> set specs" "spec_kind a = different_person" "spec_severity a = critical"
    by (auto simp: specs_def t_def)
  have "to_alert (next_id (ledger s)) a \<in> set (alerts s')"
    using a(1) by (simp add: s')
  moreover have "alert_kind (to_alert (next_id (ledger s)) a) = different_person"
    "alert_severity (to_alert (next_id (ledger s)) a) = critical"
    "transaction_id (to_alert (next_id (ledger s)) a) = next_id (ledger s)"
    using a by (simp_all add: to_alert_def)
  ultimately have al: "\<exists>x\<in>set (alerts s'). alert_kind x = different_person
                  \<and> alert_severity x = critical \<and> transaction_id x = next_id (ledger s)"
    by blast
  have "ledger s' = ledger s @ [t\<lparr>status := status_failed\<rparr>]"
    by (simp add: s' fs)
  moreover have "status (t\<lparr>status := status_failed\<rparr>) = status_failed"
    "transaction_card_number (t\<lparr>status := status_failed\<rparr>) = cardno"
    "transaction_ident (t\<lparr>status := status_failed\<rparr>) = next_id (ledger s)"
    by (simp_all add: t_def)
  ultimately have "\<exists>t. ledger s' = ledger s @ [t] \<and> status t = status_failed
            \<and> transaction_card_number t = cardno
            \<and> (\<exists>a\<in>set (alerts s'). alert_kind a = different_person
                  \<and> alert_severity a = critical \<and> transaction_id a = transaction_ident t)"
    using al by metis
  with res fs a show ?thesis by auto
qed

lemma example_core_cycle:
  "resolve_active_cycle (cycles example_core)
     = Inr \<lparr> cycle_ident = 1, start_date = 1, end_date = 31, cycle_state = cycle_active \<rparr>"
  by (simp add: example_core_def resolve_active_cycle_def)

lemma example_core_lookup:
  "lookup ''BPL001'' (registry example_core)
     = Some \<lparr> beneficiary_ident = 7, beneficiary_card_number = ''BPL001'',
             identity_name = ''Asha'', reference_face_embedding = ''ref'',
             beneficiary_state = active \<rparr>"
  by (simp add: example_core_def lookup_def)

theorem verify_face_rejected_witness:
  "example_compare ''ref'' ''other'' = Some 30 \<and> 30 < face_match_threshold example_config \<and>
   (\<exists>res s'. Verify example_config example_compare 1000 ''BPL001'' ''s1'' ''other'' ''OP001''
                example_core = Inr (res, s')
      \<and> transaction_status res = status_failed
      \<and> (\<exists>t. ledger s' = ledger example_core @ [t] \<and> status t = status_failed)
      \<and> (\<exists>a\<in>set (result_alerts res). spec_kind a = different_person
             \<and> spec_severity a = critical))"
proof -
  have c: "example_compare ''ref'' ''other'' = Some 30"
    by (simp add: example_compare_def)
  have lt: "30 < face_match_threshold example_config"
    by (simp add: example_config_def)
  from Verify_known [OF example_core_cycle example_core_lookup]
  obtain res s' where v: "Verify example_config example_compare 1000 ''BPL001'' ''s1'' ''other''
      ''OP001'' example_core = Inr (res, s')"
    by blast
  have c': "example_compare (reference_face_embedding
      \<lparr> beneficiary_ident = 7, beneficiary_card_number = ''BPL001'',
        identity_name = ''Asha'', reference_face_embedding = ''ref'',
        beneficiary_state = active \<rparr>) ''other'' = Some 30"
    using c by simp
  from verify_face_rejected [OF v example_core_lookup c' lt] v c lt
  show ?thesis by blast
qed

text \<open>
  C6, as the specification's own orchestrator has it. Without exactly one active cycle
  the call fails with a configuration error and writes nothing. Otherwise the call gives
  a result and adds exactly one record to the ledger, with the status of the result: for
  a card the registry does not know a failed record without beneficiary, with no alert
  raised or stored; when the comparator fails a failed record without confidence.
\<close>

theorem verify_appends_one:
  "case resolve_active_cycle (cycles s) of
     Inl e \<Rightarrow> Verify cfg compare now cardno shop sample opr s = Inl ConfigurationError
   | Inr cyc \<Rightarrow>
       (\<exists>res s' t. Verify cfg compare now cardno shop sample opr s = Inr (res, s')
          \<and> ledger s' = ledger s @ [t]
          \<and> transaction_card_number t = cardno \<and> cycle_id t = cycle_ident cyc
          \<and> status t = transaction_status res
          \<and> (lookup cardno (registry s) = None \<longrightarrow>
                status t = status_failed \<and> beneficiary_id t = None
                \<and> result_alerts res = [] \<and> alerts s' = alerts s
                \<and> result_message res = card_not_registered)
          \<and> (\<forall>b. lookup cardno (registry s) = Some b
                    \<and> compare (reference_face_embedding b) sample = None \<longrightarrow>
                status t = status_failed \<and> face_match_confidence t = None
                \<and> result_alerts res = [] \<and> alerts s' = alerts s
                \<and> result_message res = service_unavailable))"
proof (cases "resolve_active_cycle (cycles s)")
  case (Inl e)
  then show ?thesis by (simp add: Verify_no_cycle)
next
  case (Inr cyc)
  show ?thesis
  proof (cases "lookup cardno (registry s)")
    case None
    from Verify_unknown [OF Inr None, of cfg compare now shop sample opr]
    show ?thesis using Inr None by simp
  next
    case (Some b)
    define conf where "conf = compare (reference_face_embedding b) sample"
    define ok where "ok = face_accepted (face_match_threshold cfg) conf"
    define t where "t = \<lparr> transaction_ident = next_id (ledger s),
                  beneficiary_id = Some (beneficiary_ident b),
                  transaction_card_number = cardno, shop_id = shop,
                  cycle_id = cycle_ident cyc, face_match_confidence = conf,
                  status = (if ok then status_success else status_failed),
                  created_at = now \<rparr>"
    define specs where
      "specs = evaluate cfg t (filter (\<lambda>x. cycle_id x = cycle_ident cyc) (ledger s @ [t])) (Some b)"
    define t' where "t' = t\<lparr>status := final_status True ok specs\<rparr>"
    from Verify_known [OF Inr Some, where cfg=cfg and compare=compare and sample=sample
        and now=now and shop=shop and opr=opr]
    obtain res where v: "Verify cfg compare now cardno shop sample opr s =
            Inr (res, s\<lparr>ledger := ledger s @ [t'],
                       alerts := alerts s @ map (to_alert (next_id (ledger s))) specs\<rparr>)"
      and r: "transaction_status res = final_status True ok specs" "result_alerts res = specs"
        "result_message res =
                (if conf = None then service_unavailable
                 else if \<not> ok then face_rejected_message
                 else if final_status True ok specs = status_flagged then verified_with_alerts
                 else verified)"
      unfolding t'_def t_def specs_def ok_def conf_def by blast
    have t'1: "transaction_card_number t' = cardno" "cycle_id t' = cycle_ident cyc"
      "status t' = transaction_status res" "face_match_confidence t' = conf"
      by (simp_all add: t'_def t_def r)
    have fail: "status t' = status_failed \<and> specs = [] \<and> result_message res = service_unavailable"
      if "conf = None"
    proof -
      have "face_match_confidence t = None" using that by (simp add: t_def)
      then have "specs = []" unfolding specs_def by (rule evaluate_no_confidence)
      moreover have "\<not> ok" using that by (simp add: ok_def face_accepted_def)
      ultimately show ?thesis using that r by (simp add: t'_def final_status_def)
    qed
    define s' where "s' = s\<lparr>ledger := ledger s @ [t'],
              alerts := alerts s @ map (to_alert (next_id (ledger s))) specs\<rparr>"
    have s'1: "ledger s' = ledger s @ [t']" "specs = [] \<Longrightarrow> alerts s' = alerts s"
      by (simp_all add: s'_def)
    have body: "Verify cfg compare now cardno shop sample opr s = Inr (res, s')
          \<and> ledger s' = ledger s @ [t']
          \<and> transaction_card_number t' = cardno \<and> cycle_id t' = cycle_ident cyc
          \<and> status t' = transaction_status res
          \<and> (lookup cardno (registry s) = None \<longrightarrow>
                status t' = status_failed \<and> beneficiary_id t' = None
                \<and> result_alerts res = [] \<and> alerts s' = alerts s
                \<and> result_message res = card_not_registered)
          \<and> (\<forall>b. lookup cardno (registry s) = Some b
                    \<and> compare (reference_face_embedding b) sample = None \<longrightarrow>
                status t' = status_failed \<and> face_match_confidence t' = None
                \<and> result_alerts res = [] \<and> alerts s' = alerts s
                \<and> result_message res = service_unavailable)"
      using v r(2) t'1 fail s'1 Some by (auto simp: conf_def s'_def)
    show ?thesis
      unfolding Inr sum.case
      by (rule exI [of _ res], rule exI [of _ s'], rule exI [of _ t']) (rule body)
  qed
qed

theorem verify_appends_one_witness:
  "lookup ''BPL999'' (registry example_core) = None \<and>
   (\<exists>res s' t. Verify default_config example_compare 1000 ''BPL999'' ''s1'' ''img'' ''OP001''
                  example_core = Inr (res, s')
      \<and> ledger s' = ledger example_core @ [t]
      \<and> status t = status_failed \<and> beneficiary_id t = None \<and> result_alerts res = [])"
proof -
  have n: "lookup ''BPL999'' (registry example_core) = None"
    by (simp add: example_core_def lookup_def)
  from verify_appends_one
    [where s=example_core and cfg=default_config and compare=example_compare and now=1000
       and cardno="''BPL999''" and shop="''s1''" and sample="''img''" and opr="''OP001''"]
  show ?thesis unfolding example_core_cycle using n by auto
qed

text \<open>
  The claim for every call fails in the specification's own design: with no active
  cycle the call is a configuration error and no record is written.
\<close>

theorem verify_no_cycle_counterexample:
  "Verify default_config example_compare 1000 ''BPL001'' ''s1'' ''img'' ''OP001''
     (example_core\<lparr>cycles := []\<rparr>) = Inl ConfigurationError"
  by (simp add: Verify_def resolve_active_cycle_def)

text \<open>
  C5. The default of \<^verbatim>\<open>FACE_MATCH_THRESHOLD\<close> is 60, a value of the confidence scale
  from 0 to 100. For a known card and an answer of the comparator, the face is accepted,
  and the transaction not failed, exactly when the confidence is at least the threshold
  in force.
\<close>

theorem face_accepted_from_threshold:
  assumes "Verify cfg compare now cardno shop sample opr s = Inr (res, s')"
    and "lookup cardno (registry s) = Some b"
    and "compare (reference_face_embedding b) sample = Some c"
  shows "face_match_threshold default_config = 60
     \<and> 0 \<le> face_match_threshold default_config
     \<and> face_match_threshold default_config \<le> 100
     \<and> (accepted res \<longleftrightarrow> face_match_threshold cfg \<le> c)
     \<and> (transaction_status res \<noteq> status_failed \<longleftrightarrow> face_match_threshold cfg \<le> c)"
proof -
  from Verify_Inr_cycle [OF assms(1)] obtain cyc
    where cyc: "resolve_active_cycle (cycles s) = Inr cyc" ..
  from Verify_known [OF cyc assms(2), where cfg=cfg and compare=compare and sample=sample
      and now=now and shop=shop and opr=opr] assms(1,3)
  obtain specs where "accepted res = face_accepted (face_match_threshold cfg) (Some c)"
    "transaction_status res = final_status True (face_accepted (face_match_threshold cfg) (Some c)) specs"
    by auto
  then show ?thesis
    by (auto simp: face_accepted_def final_status_def default_config_def FACE_MATCH_THRESHOLD_def)
qed

theorem face_accepted_from_threshold_witness:
  "example_compare ''ref'' ''img'' = Some 90 \<and>
   (\<exists>res s'. Verify default_config example_compare 1000 ''BPL001'' ''s1'' ''img'' ''OP001''
                example_core = Inr (res, s')
      \<and> accepted res \<and> transaction_status res \<noteq> status_failed) \<and>
   example_compare ''ref'' ''other'' = Some 30 \<and>
   (\<exists>res s'. Verify default_config example_compare 1000 ''BPL001'' ''s1'' ''other'' ''OP001''
                example_core = Inr (res, s')
      \<and> \<not> accepted res \<and> transaction_status res = status_failed) \<and>
   face_match_threshold default_config = 60"
proof -
  have c: "example_compare ''ref'' ''img'' = Some 90"
    and d: "example_compare ''ref'' ''other'' = Some 30"
    by (simp_all add: example_compare_def)
  have le: "face_match_threshold default_config \<le> 90"
    and nle: "\<not> face_match_threshold default_config \<le> 30"
    by (simp_all add: default_config_def FACE_MATCH_THRESHOLD_def)
  from Verify_known [OF example_core_cycle example_core_lookup]
  obtain res s' where v: "Verify default_config example_compare 1000 ''BPL001'' ''s1'' ''img''
      ''OP001'' example_core = Inr (res, s')"
    by blast
  from Verify_known [OF example_core_cycle example_core_lookup]
  obtain res2 s2 where v2: "Verify default_config example_compare 1000 ''BPL001'' ''s1''
      ''other'' ''OP001'' example_core = Inr (res2, s2)"
    by blast
  have c': "example_compare (reference_face_embedding
      \<lparr> beneficiary_ident = 7, beneficiary_card_number = ''BPL001'',
        identity_name = ''Asha'', reference_face_embedding = ''ref'',
        beneficiary_state = active \<rparr>) ''img'' = Some 90"
    using c by simp
  have d': "example_compare (reference_face_embedding
      \<lparr> beneficiary_ident = 7, beneficiary_card_number = ''BPL001'',
        identity_name = ''Asha'', reference_face_embedding = ''ref'',
        beneficiary_state = active \<rparr>) ''other'' = Some 30"
    using d by simp
  from face_accepted_from_threshold [OF v example_core_lookup c'] le
  have a: "accepted res \<and> transaction_status res \<noteq> status_failed"
    and t: "face_match_threshold default_config = 60"
    by simp_all
  from face_accepted_from_threshold [OF v2 example_core_lookup d'] nle
  have b: "\<not> accepted res2 \<and> transaction_status res2 = status_failed"
    by simp
  from a b t v v2 c d show ?thesis by blast
qed

subsection \<open>Rule 4\<close>

text \<open>
  Rule 2 only captures transactions at another shop, so the exclusion of rule 4 removes
  nothing.
\<close>

lemma not_captured_at_same_shop:
  "\<not> (captured_by_rule_2 cur ben x \<and> shop_id x = shop_id cur)"
  by (cases ben) (simp_all add: captured_by_rule_2_def)

text \<open>
  The record of the current attempt has a fresh identifier: the comparison set of rule 4
  on the ledger with that record is a selection from the ledger before it.
\<close>

lemma prior_findByCardInCycle:
  assumes "\<forall>x\<in>set l. transaction_ident x \<noteq> transaction_ident cur"
    and "transaction_ident t = transaction_ident cur"
  shows "prior cur (findByCardInCycle c cyc (filter (\<lambda>x. cycle_id x = cyc) (l @ [t])))
           = findByCardInCycle c cyc l"
proof -
  have "filter (\<lambda>x. transaction_ident x \<noteq> transaction_ident cur)
          (filter (\<lambda>x. transaction_card_number x = c \<and> cycle_id x = cyc)
             (filter (\<lambda>x. cycle_id x = cyc) (l @ [t])))
        = filter (\<lambda>x. transaction_card_number x = c \<and> cycle_id x = cyc) l"
    using assms by (auto intro: filter_cong)
  then show ?thesis
    by (simp only: prior_def findByCardInCycle_def filter_sort)
qed

lemma timing_candidates_fresh:
  assumes "\<forall>x\<in>set l. transaction_ident x \<noteq> transaction_ident cur"
  shows "timing_candidates cfg cur (filter (\<lambda>x. cycle_id x = cycle_id cur) (l @ [cur])) ben
           = filter (\<lambda>x. \<bar>created_at x - created_at cur\<bar> \<le> window_seconds cfg)
               (findByCardInCycle (transaction_card_number cur) (cycle_id cur) l)"
  unfolding timing_candidates_def prior_findByCardInCycle [OF assms refl]
  by (simp add: not_captured_at_same_shop)

lemma nearest_in_time_None: "nearest_in_time now ts = None \<longleftrightarrow> ts = []"
  by (induction ts) (auto split: option.splits)

lemma nearest_in_time_Some:
  "nearest_in_time now ts = Some u \<Longrightarrow>
     u \<in> set ts \<and> (\<forall>x\<in>set ts. \<bar>created_at u - now\<bar> \<le> \<bar>created_at x - now\<bar>)"
proof (induction ts arbitrary: u)
  case Nil
  then show ?case by simp
next
  case (Cons t ts)
  show ?case
  proof (cases "nearest_in_time now ts")
    case None
    with Cons.prems show ?thesis by (simp add: nearest_in_time_None)
  next
    case (Some v)
    from Cons.IH [OF Some] Cons.prems Some show ?thesis
      by (auto split: if_splits)
  qed
qed

lemma rule_different_person_kind:
  "list_all (\<lambda>a. spec_kind a = different_person) (rule_different_person cfg cur ben)"
  by (simp add: rule_different_person_def split: option.split)

lemma rule_duplicate_location_kind:
  "list_all (\<lambda>a. spec_kind a = duplicate_location) (rule_duplicate_location cfg cur history ben)"
  by (simp add: rule_duplicate_location_def split: option.split list.split)

lemma rule_multiple_attempts_kind:
  "list_all (\<lambda>a. spec_kind a = multiple_attempts) (rule_multiple_attempts cfg cur history ben)"
  by (simp add: rule_multiple_attempts_def split: option.split)

lemma rule_suspicious_timing_rejected:
  "\<not> face_accepted (face_match_threshold cfg) (face_match_confidence cur) \<Longrightarrow>
     rule_suspicious_timing cfg cur history ben = []"
  by (simp add: rule_suspicious_timing_def)

lemma rule_suspicious_timing_none:
  "nearest_in_time (created_at cur) (timing_candidates cfg cur history ben) = None \<Longrightarrow>
     rule_suspicious_timing cfg cur history ben = []"
  by (simp add: rule_suspicious_timing_def)

lemma rule_suspicious_timing_some:
  "face_accepted (face_match_threshold cfg) (face_match_confidence cur) \<Longrightarrow>
   nearest_in_time (created_at cur) (timing_candidates cfg cur history ben) = Some p \<Longrightarrow>
     rule_suspicious_timing cfg cur history ben =
       [\<lparr> spec_kind = suspicious_timing, spec_severity = medium,
          spec_description = ''suspicious timing for card '' @ transaction_card_number cur,
          spec_previous = Some (transaction_ident p) \<rparr>]"
  by (simp add: rule_suspicious_timing_def)

lemma rule_suspicious_timing_kind:
  "list_all (\<lambda>a. spec_kind a = suspicious_timing) (rule_suspicious_timing cfg cur history ben)"
proof (cases "face_accepted (face_match_threshold cfg) (face_match_confidence cur)")
  case False
  then show ?thesis by (simp add: rule_suspicious_timing_rejected)
next
  case True
  show ?thesis
  proof (cases "nearest_in_time (created_at cur) (timing_candidates cfg cur history ben)")
    case None
    then show ?thesis by (simp add: rule_suspicious_timing_none)
  next
    case (Some p)
    with True show ?thesis by (simp add: rule_suspicious_timing_some)
  qed
qed

lemma suspicious_timing_alerts:
  "filter (\<lambda>a. spec_kind a = suspicious_timing) (evaluate cfg cur history ben)
     = rule_suspicious_timing cfg cur history ben"
proof -
  have "filter (\<lambda>a. spec_kind a = suspicious_timing) (rule_different_person cfg cur ben) = []"
    using rule_different_person_kind [of cfg cur ben]
    by (simp add: list_all_iff filter_empty_conv)
  moreover have "filter (\<lambda>a. spec_kind a = suspicious_timing)
      (rule_duplicate_location cfg cur history ben) = []"
    using rule_duplicate_location_kind [of cfg cur history ben]
    by (simp add: list_all_iff filter_empty_conv)
  moreover have "filter (\<lambda>a. spec_kind a = suspicious_timing)
      (rule_multiple_attempts cfg cur history ben) = []"
    using rule_multiple_attempts_kind [of cfg cur history ben]
    by (simp add: list_all_iff filter_empty_conv)
  moreover have "filter (\<lambda>a. spec_kind a = suspicious_timing)
      (rule_suspicious_timing cfg cur history ben) = rule_suspicious_timing cfg cur history ben"
    using rule_suspicious_timing_kind [of cfg cur history ben]
    by (simp add: list_all_iff)
  ultimately show ?thesis by (simp add: evaluate_def)
qed

text \<open>What a call for a known card leaves behind, field by field.\<close>

lemma Verify_known_state:
  assumes "Verify cfg compare now cardno shop sample opr s = Inr (res, s')"
    and "lookup cardno (registry s) = Some b"
  obtains cyc cur where "resolve_active_cycle (cycles s) = Inr cyc"
    and "registry s' = registry s" and "cycles s' = cycles s"
    and "ledger s' = ledger s @ [cur\<lparr>status := transaction_status res\<rparr>]"
    and "transaction_ident cur = next_id (ledger s)"
    and "transaction_card_number cur = cardno" and "cycle_id cur = cycle_ident cyc"
    and "created_at cur = now"
    and "face_match_confidence cur = compare (reference_face_embedding b) sample"
    and "accepted res = face_accepted (face_match_threshold cfg) (face_match_confidence cur)"
    and "result_alerts res =
           evaluate cfg cur (filter (\<lambda>x. cycle_id x = cycle_id cur) (ledger s @ [cur])) (Some b)"
proof -
  from Verify_Inr_cycle [OF assms(1)] obtain cyc
    where cyc: "resolve_active_cycle (cycles s) = Inr cyc" ..
  define conf where "conf = compare (reference_face_embedding b) sample"
  define ok where "ok = face_accepted (face_match_threshold cfg) conf"
  define t where "t = \<lparr> transaction_ident = next_id (ledger s),
                  beneficiary_id = Some (beneficiary_ident b),
                  transaction_card_number = cardno, shop_id = shop,
                  cycle_id = cycle_ident cyc, face_match_confidence = conf,
                  status = (if ok then status_success else status_failed),
                  created_at = now \<rparr>"
  define specs where
    "specs = evaluate cfg t (filter (\<lambda>x. cycle_id x = cycle_ident cyc) (ledger s @ [t])) (Some b)"
  from Verify_known [OF cyc assms(2), where cfg=cfg and compare=compare and sample=sample
      and now=now and shop=shop and opr=opr] assms(1)
  have s': "s' = s\<lparr>ledger := ledger s @ [t\<lparr>status := final_status True ok specs\<rparr>],
                  alerts := alerts s @ map (to_alert (next_id (ledger s))) specs\<rparr>"
    and r: "accepted res = ok" "result_alerts res = specs"
      "transaction_status res = final_status True ok specs"
    unfolding t_def specs_def ok_def conf_def by auto
  have ct: "cycle_id t = cycle_ident cyc" by (simp add: t_def)
  show ?thesis
  proof (rule that [of cyc t])
    show "resolve_active_cycle (cycles s) = Inr cyc" by (rule cyc)
    show "registry s' = registry s" "cycles s' = cycles s" by (simp_all add: s')
    show "transaction_ident t = next_id (ledger s)" "transaction_card_number t = cardno"
      "cycle_id t = cycle_ident cyc" "created_at t = now"
      "face_match_confidence t = compare (reference_face_embedding b) sample"
      by (simp_all add: t_def conf_def)
    show "accepted res = face_accepted (face_match_threshold cfg) (face_match_confidence t)"
      by (simp add: r ok_def t_def)
    show "result_alerts res =
           evaluate cfg t (filter (\<lambda>x. cycle_id x = cycle_id t) (ledger s @ [t])) (Some b)"
      by (simp only: r specs_def ct)
    show "ledger s' = ledger s @ [t\<lparr>status := transaction_status res\<rparr>]"
      by (simp add: s' r)
  qed
qed

text \<open>
  C7. The window at its default of 24 hours, a known card, and two Verify calls for it
  one after the other, the second with an accepted face; the first attempt is closer in
  time to the second than every older record of the card in the ledger. When the second
  attempt comes 2 hours after the first, its result has a \<^verbatim>\<open>suspicious_timing\<close> alert
  of severity medium whose previous transaction is the record of the first attempt; when
  it comes 30 hours after, its result has no \<^verbatim>\<open>suspicious_timing\<close> alert. The outcome
  of the first attempt does not matter, rule 4 counting prior transactions of any status.
\<close>

theorem suspicious_timing_window:
  assumes w: "duplicate_time_window_hours cfg = DUPLICATE_TIME_WINDOW_HOURS"
    and known: "lookup cardno (registry s) = Some b"
    and first: "Verify cfg compare t1 cardno shop1 sample1 opr1 s = Inr (r1, s1)"
    and second: "Verify cfg compare t2 cardno shop2 sample2 opr2 s1 = Inr (r2, s2)"
    and acc: "accepted r2"
    and far: "\<forall>x\<in>set (ledger s). transaction_card_number x = cardno \<longrightarrow>
                \<bar>t2 - t1\<bar> < \<bar>t2 - created_at x\<bar>"
  shows "(t2 = t1 + 2 * 3600 \<longrightarrow>
            (\<exists>a\<in>set (result_alerts r2). spec_kind a = suspicious_timing
               \<and> spec_severity a = medium
               \<and> spec_previous a = Some (transaction_ident (last (ledger s1)))))
       \<and> (t2 = t1 + 30 * 3600 \<longrightarrow>
            (\<forall>a\<in>set (result_alerts r2). spec_kind a \<noteq> suspicious_timing))"
proof -
  from first known obtain cyc p where cyc: "resolve_active_cycle (cycles s) = Inr cyc"
    and s1: "registry s1 = registry s" "cycles s1 = cycles s"
      "ledger s1 = ledger s @ [p\<lparr>status := transaction_status r1\<rparr>]"
    and p: "transaction_ident p = next_id (ledger s)" "transaction_card_number p = cardno"
      "cycle_id p = cycle_ident cyc" "created_at p = t1"
    by (rule Verify_known_state)
  define tx1 where "tx1 = p\<lparr>status := transaction_status r1\<rparr>"
  have tx1: "transaction_card_number tx1 = cardno" "cycle_id tx1 = cycle_ident cyc"
    "created_at tx1 = t1" "ledger s1 = ledger s @ [tx1]"
    by (simp_all add: tx1_def p s1)
  from known s1 have known1: "lookup cardno (registry s1) = Some b" by simp
  from second known1 obtain cyc' cur where cyc': "resolve_active_cycle (cycles s1) = Inr cyc'"
    and cur: "transaction_ident cur = next_id (ledger s1)" "transaction_card_number cur = cardno"
      "cycle_id cur = cycle_ident cyc'" "created_at cur = t2"
      "accepted r2 = face_accepted (face_match_threshold cfg) (face_match_confidence cur)"
    and r2: "result_alerts r2 =
           evaluate cfg cur (filter (\<lambda>x. cycle_id x = cycle_id cur) (ledger s1 @ [cur])) (Some b)"
    by (rule Verify_known_state)
  from cyc' cyc s1 have "cyc' = cyc" by simp
  note cur = cur [unfolded this]
  define hist where "hist = filter (\<lambda>x. cycle_id x = cycle_id cur) (ledger s1 @ [cur])"
  define cands where "cands = timing_candidates cfg cur hist (Some b)"
  have fresh: "\<forall>x\<in>set (ledger s1). transaction_ident x \<noteq> transaction_ident cur"
    using next_id_fresh [of _ "ledger s1"] by (fastforce simp: cur(1))
  have W: "window_seconds cfg = 86400"
    by (simp add: window_seconds_def w DUPLICATE_TIME_WINDOW_HOURS_def)
  have cands_set: "set cands = {x \<in> set (ledger s) \<union> {tx1}.
      transaction_card_number x = cardno \<and> cycle_id x = cycle_ident cyc
      \<and> \<bar>created_at x - t2\<bar> \<le> 86400}"
    unfolding cands_def hist_def timing_candidates_fresh [OF fresh]
    by (auto simp: findByCardInCycle_def cur tx1 W)
  have st: "filter (\<lambda>a. spec_kind a = suspicious_timing) (result_alerts r2)
              = rule_suspicious_timing cfg cur hist (Some b)"
    unfolding r2 hist_def by (rule suspicious_timing_alerts)
  have acc': "face_accepted (face_match_threshold cfg) (face_match_confidence cur)"
    using acc cur(5) by simp
  have near: "\<exists>a\<in>set (result_alerts r2). spec_kind a = suspicious_timing
               \<and> spec_severity a = medium
               \<and> spec_previous a = Some (transaction_ident (last (ledger s1)))"
    if d: "t2 = t1 + 2 * 3600"
  proof -
    have "tx1 \<in> set cands" unfolding cands_set using d by (simp add: tx1)
    then have "nearest_in_time (created_at cur) cands \<noteq> None"
      by (auto simp: nearest_in_time_None)
    then obtain u where u: "nearest_in_time (created_at cur) cands = Some u" by blast
    from nearest_in_time_Some [OF u] \<open>tx1 \<in> set cands\<close>
    have um: "u \<in> set cands" and ul: "\<bar>created_at u - t2\<bar> \<le> \<bar>created_at tx1 - t2\<bar>"
      by (simp_all add: cur)
    have "u = tx1"
    proof (rule ccontr)
      assume "u \<noteq> tx1"
      with um have "u \<in> set (ledger s)" "transaction_card_number u = cardno"
        unfolding cands_set by auto
      with far have "\<bar>t2 - t1\<bar> < \<bar>t2 - created_at u\<bar>" by blast
      with ul show False by (simp add: tx1)
    qed
    with u have "rule_suspicious_timing cfg cur hist (Some b) =
       [\<lparr> spec_kind = suspicious_timing, spec_severity = medium,
          spec_description = ''suspicious timing for card '' @ transaction_card_number cur,
          spec_previous = Some (transaction_ident tx1) \<rparr>]"
      using rule_suspicious_timing_some [OF acc', of hist "Some b" u]
      by (simp add: cands_def)
    with st have "\<lparr> spec_kind = suspicious_timing, spec_severity = medium,
          spec_description = ''suspicious timing for card '' @ transaction_card_number cur,
          spec_previous = Some (transaction_ident tx1) \<rparr>
        \<in> set (filter (\<lambda>a. spec_kind a = suspicious_timing) (result_alerts r2))"
      by simp
    then have "\<lparr> spec_kind = suspicious_timing, spec_severity = medium,
          spec_description = ''suspicious timing for card '' @ transaction_card_number cur,
          spec_previous = Some (transaction_ident tx1) \<rparr> \<in> set (result_alerts r2)"
      by simp
    moreover have "last (ledger s1) = tx1" by (simp add: tx1)
    ultimately show ?thesis by force
  qed
  have none: "\<forall>a\<in>set (result_alerts r2). spec_kind a \<noteq> suspicious_timing"
    if d: "t2 = t1 + 30 * 3600"
  proof -
    have "cands = []"
    proof (rule ccontr)
      assume "cands \<noteq> []"
      then obtain x where x: "x \<in> set cands" by (cases cands) auto
      then have xw: "\<bar>created_at x - t2\<bar> \<le> 86400" unfolding cands_set by simp
      from x consider "x = tx1" | "x \<in> set (ledger s)" "transaction_card_number x = cardno"
        unfolding cands_set by auto
      then show False
      proof cases
        case 1
        with xw d show False by (simp add: tx1)
      next
        case 2
        with far have "\<bar>t2 - t1\<bar> < \<bar>t2 - created_at x\<bar>" by blast
        with xw d show False by simp
      qed
    qed
    then have "nearest_in_time (created_at cur) cands = None"
      by (simp add: nearest_in_time_None)
    then have "rule_suspicious_timing cfg cur hist (Some b) = []"
      unfolding cands_def by (rule rule_suspicious_timing_none)
    with st show ?thesis by (simp add: filter_empty_conv)
  qed
  from near none show ?thesis by blast
qed

theorem suspicious_timing_window_witness:
  "\<exists>r1 s1 r2 s2 r3 s3.
     Verify default_config example_compare 1000 ''BPL001'' ''s1'' ''img'' ''OP001''
         (example_core\<lparr>ledger := example_ledger\<rparr>)
       = Inr (r1, s1)
     \<and> Verify default_config example_compare (1000 + 2 * 3600) ''BPL001'' ''s2'' ''img'' ''OP002'' s1
       = Inr (r2, s2)
     \<and> accepted r2
     \<and> (\<exists>a\<in>set (result_alerts r2). spec_kind a = suspicious_timing
           \<and> spec_severity a = medium
           \<and> spec_previous a = Some (transaction_ident (last (ledger s1))))
     \<and> Verify default_config example_compare (1000 + 30 * 3600) ''BPL001'' ''s2'' ''img'' ''OP002'' s1
       = Inr (r3, s3)
     \<and> accepted r3
     \<and> (\<forall>a\<in>set (result_alerts r3). spec_kind a \<noteq> suspicious_timing)"
proof -
  have w: "duplicate_time_window_hours default_config = DUPLICATE_TIME_WINDOW_HOURS"
    by (simp add: default_config_def)
  have ok: "face_accepted (face_match_threshold default_config)
      (example_compare (reference_face_embedding
        \<lparr> beneficiary_ident = 7, beneficiary_card_number = ''BPL001'',
          identity_name = ''Asha'', reference_face_embedding = ''ref'',
          beneficiary_state = active \<rparr>) ''img'')"
    by (simp add: face_accepted_def default_config_def FACE_MATCH_THRESHOLD_def
        example_compare_def)
  define s0 where "s0 = example_core\<lparr>ledger := example_ledger\<rparr>"
  have cyc0: "resolve_active_cycle (cycles s0)
     = Inr \<lparr> cycle_ident = 1, start_date = 1, end_date = 31, cycle_state = cycle_active \<rparr>"
    using example_core_cycle by (simp add: s0_def)
  have known0: "lookup ''BPL001'' (registry s0)
     = Some \<lparr> beneficiary_ident = 7, beneficiary_card_number = ''BPL001'',
             identity_name = ''Asha'', reference_face_embedding = ''ref'',
             beneficiary_state = active \<rparr>"
    using example_core_lookup by (simp add: s0_def)
  from Verify_known [OF cyc0 known0]
  obtain r1 s1 where v1: "Verify default_config example_compare 1000 ''BPL001'' ''s1'' ''img''
      ''OP001'' s0 = Inr (r1, s1)"
    by blast
  have s1: "registry s1 = registry s0" "cycles s1 = cycles s0"
  proof -
    from v1 known0 show "registry s1 = registry s0"
      by (rule Verify_known_state)
    from v1 known0 show "cycles s1 = cycles s0"
      by (rule Verify_known_state)
  qed
  have cyc1: "resolve_active_cycle (cycles s1)
     = Inr \<lparr> cycle_ident = 1, start_date = 1, end_date = 31, cycle_state = cycle_active \<rparr>"
    using cyc0 by (simp add: s1)
  have known1: "lookup ''BPL001'' (registry s1)
     = Some \<lparr> beneficiary_ident = 7, beneficiary_card_number = ''BPL001'',
             identity_name = ''Asha'', reference_face_embedding = ''ref'',
             beneficiary_state = active \<rparr>"
    using known0 by (simp add: s1)
  from Verify_known [OF cyc1 known1, where cfg=default_config and compare=example_compare
      and sample="''img''" and now="1000 + 2 * 3600" and shop="''s2''" and opr="''OP002''"]
  obtain r2 s2 where v2: "Verify default_config example_compare (1000 + 2 * 3600) ''BPL001''
      ''s2'' ''img'' ''OP002'' s1 = Inr (r2, s2)"
    and "accepted r2 = face_accepted (face_match_threshold default_config)
      (example_compare (reference_face_embedding
        \<lparr> beneficiary_ident = 7, beneficiary_card_number = ''BPL001'',
          identity_name = ''Asha'', reference_face_embedding = ''ref'',
          beneficiary_state = active \<rparr>) ''img'')"
    by blast
  with ok have a2: "accepted r2" by (simp only:)
  from Verify_known [OF cyc1 known1, where cfg=default_config and compare=example_compare
      and sample="''img''" and now="1000 + 30 * 3600" and shop="''s2''" and opr="''OP002''"]
  obtain r3 s3 where v3: "Verify default_config example_compare (1000 + 30 * 3600) ''BPL001''
      ''s2'' ''img'' ''OP002'' s1 = Inr (r3, s3)"
    and "accepted r3 = face_accepted (face_match_threshold default_config)
      (example_compare (reference_face_embedding
        \<lparr> beneficiary_ident = 7, beneficiary_card_number = ''BPL001'',
          identity_name = ''Asha'', reference_face_embedding = ''ref'',
          beneficiary_state = active \<rparr>) ''img'')"
    by blast
  with ok have a3: "accepted r3" by (simp only:)
  have far2: "\<forall>x\<in>set (ledger s0). transaction_card_number x = ''BPL001'' \<longrightarrow>
                \<bar>(1000 + 2 * 3600) - 1000\<bar> < \<bar>(1000 + 2 * 3600) - created_at x\<bar>"
    and far3: "\<forall>x\<in>set (ledger s0). transaction_card_number x = ''BPL001'' \<longrightarrow>
                \<bar>(1000 + 30 * 3600) - 1000\<bar> < \<bar>(1000 + 30 * 3600) - created_at x\<bar>"
    by (simp_all add: s0_def example_ledger_def)
  from suspicious_timing_window [OF w known0 v1 v2 a2 far2]
  have "\<exists>a\<in>set (result_alerts r2). spec_kind a = suspicious_timing
           \<and> spec_severity a = medium
           \<and> spec_previous a = Some (transaction_ident (last (ledger s1)))"
    by simp
  moreover from suspicious_timing_window [OF w known0 v1 v3 a3 far3]
  have "\<forall>a\<in>set (result_alerts r3). spec_kind a \<noteq> suspicious_timing"
    by simp
  ultimately show ?thesis using v1 v2 a2 v3 a3 unfolding s0_def by blast
qed

end
